theory Spec2Isabelle
  imports Complex_Main "HOL-Library.Sublist"
begin

section \<open>Data model\<close>

text \<open>
  The rows of the relational store, as the migrations declare them, and the
  values the dashboards compute with. Identifiers are UUID strings. A
  \<^verbatim>\<open>TIMESTAMP WITH TIME ZONE\<close> column is kept as the number of
  milliseconds since the epoch, which is what \<^verbatim>\<open>new Date(s).getTime()\<close>
  yields for the ISO string the store returns. JavaScript numbers are modelled
  as real numbers (no rounding, no NaN); a nullable column is an option.
\<close>

type_synonym uuid = string
type_synonym timestamp = int

datatype game_status = pending | assigned | completed | cancelled

datatype request_status = req_pending | accepted | rejected

datatype app_role = coach | umpire | employee | admin

record game =
  id :: uuid
  coach_id :: uuid
  game_date :: timestamp
  location :: string
  opponent :: string
  status :: game_status
  assigned_umpire_id :: "uuid option"
  latitude :: "real option"
  longitude :: "real option"

section \<open>GeoDistance and ConflictDetector (UmpireDashboard)\<close>

text \<open>
  Truthiness of a value of type \<^verbatim>\<open>number | null\<close>: \<^verbatim>\<open>null\<close> and
  \<^verbatim>\<open>0\<close> are falsy. \<open>number_of\<close> reads such a value where the code
  passes it on as a number.
\<close>

fun truthy :: "real option \<Rightarrow> bool" where
  "truthy None = False"
| "truthy (Some x) = (x \<noteq> 0)"

fun number_of :: "real option \<Rightarrow> real" where
  "number_of None = 0"
| "number_of (Some x) = x"

text \<open>\<^verbatim>\<open>Math.atan2(y, x)\<close>: the angle of the point \<open>(x, y)\<close>, in \<open>(-\<pi>, \<pi>]\<close>.\<close>

definition atan2 :: "real \<Rightarrow> real \<Rightarrow> real" where
  "atan2 y x =
     (if 0 < x then arctan (y / x)
      else if x < 0 then (if 0 \<le> y then arctan (y / x) + pi else arctan (y / x) - pi)
      else if 0 < y then pi / 2
      else if y < 0 then - (pi / 2)
      else 0)"

text \<open>
  \<^verbatim>\<open>calculateDistance\<close>, as the exact value of its formula. The program
  computes it in double precision: its value is the exact one up to rounding
  only, and it is NaN where rounding takes \<^verbatim>\<open>a\<close> above 1 (fields that are
  nearly antipodal), which makes the comparison of \<^verbatim>\<open>checkDoubleBooking\<close>
  false. The properties below read the distance only where the program
  computes it exactly: between equal coordinates, where every step of the
  formula is 0, and where a statement fixes its value by hypothesis.
\<close>

definition calculateDistance :: "real \<Rightarrow> real \<Rightarrow> real \<Rightarrow> real \<Rightarrow> real" where
  "calculateDistance lat1 lon1 lat2 lon2 =
     (let R = 3959;
          dLat = (lat2 - lat1) * pi / 180;
          dLon = (lon2 - lon1) * pi / 180;
          a = sin (dLat / 2) * sin (dLat / 2) +
              cos (lat1 * pi / 180) * cos (lat2 * pi / 180) *
              sin (dLon / 2) * sin (dLon / 2);
          c = 2 * atan2 (sqrt a) (sqrt (1 - a))
      in R * c)"

definition twoHours :: int where
  "twoHours = 2 * 60 * 60 * 1000"

text \<open>
  \<open>requiredBuffer\<close> is the gap, in milliseconds, that the loop body of
  \<^verbatim>\<open>checkDoubleBooking\<close> asks for between the candidate and one existing game
  when both carry coordinates: the travel time at 30 miles per hour plus one hour.
\<close>

definition requiredBuffer :: "real \<Rightarrow> real \<Rightarrow> game \<Rightarrow> real" where
  "requiredBuffer gameLat gameLng g =
     (let distance = calculateDistance gameLat gameLng
                       (number_of (latitude g)) (number_of (longitude g));
          travelTimeMinutes = (distance / 30) * 60
      in (travelTimeMinutes + 60) * 60 * 1000)"

text \<open>
  \<^verbatim>\<open>checkDoubleBooking\<close>: the \<^verbatim>\<open>for\<close> loop over \<^verbatim>\<open>myGames\<close> is the
  recursion over the list; each \<^verbatim>\<open>return true\<close> ends it.
\<close>

fun checkDoubleBooking ::
  "game list \<Rightarrow> timestamp \<Rightarrow> real option \<Rightarrow> real option \<Rightarrow> bool" where
  "checkDoubleBooking [] gameDate gameLat gameLng = False"
| "checkDoubleBooking (g # myGames) gameDate gameLat gameLng =
     (let newGameTime = gameDate;
          existingGameTime = game_date g;
          timeDiff = \<bar>newGameTime - existingGameTime\<bar>
      in if timeDiff < twoHours then
           (if truthy gameLat \<and> truthy gameLng \<and> truthy (latitude g) \<and> truthy (longitude g) then
              (if real_of_int timeDiff
                    < requiredBuffer (number_of gameLat) (number_of gameLng) g
               then True
               else checkDoubleBooking myGames gameDate gameLat gameLng)
            else True)
         else checkDoubleBooking myGames gameDate gameLat gameLng)"

text \<open>
  \<^verbatim>\<open>filteredGames\<close>: the open games shown to the umpire, given the home
  coordinates and the distance cap of the dashboard.
\<close>

definition filteredGames ::
  "real option \<Rightarrow> real option \<Rightarrow> real \<Rightarrow> game list \<Rightarrow> game list" where
  "filteredGames userLat userLng maxDistance availableGames =
     filter (\<lambda>g.
        if \<not> truthy userLat \<or> \<not> truthy userLng \<or>
           \<not> truthy (latitude g) \<or> \<not> truthy (longitude g)
        then True
        else calculateDistance (number_of userLat) (number_of userLng)
               (number_of (latitude g)) (number_of (longitude g)) \<le> maxDistance)
       availableGames"

section \<open>The relational store (migrations)\<close>

text \<open>
  The tables of the migrations. Columns that no claim reads
  (\<^verbatim>\<open>updated_at\<close> and the trigger that maintains it, \<^verbatim>\<open>created_at\<close> of
  games, requests and leads) are left out. The columns of \<^verbatim>\<open>games\<close> keep
  their names; the columns of the other tables carry the table as a prefix
  where the name is already taken. The users (\<^verbatim>\<open>auth.users\<close>) are not a
  table of the model, so the references to them are not checked.
\<close>

record umpire_request =
  request_id :: uuid
  request_game_id :: uuid
  request_coach_id :: uuid
  request_status :: request_status

record rating_row =
  rating_id :: uuid
  rating_game_id :: uuid
  rating_coach_id :: uuid
  umpire_id :: uuid
  rating :: int
  comment :: "string option"
  created_at :: timestamp

record external_umpire_lead =
  lead_id :: uuid
  lead_game_id :: uuid
  lead_coach_id :: uuid
  umpire_name :: string
  umpire_contact :: "string option"
  how_found :: string
  lead_notes :: "string option"

record store =
  games :: "game list"
  umpire_requests :: "umpire_request list"
  ratings :: "rating_row list"
  external_umpire_leads :: "external_umpire_lead list"
  user_roles :: "(uuid \<times> app_role) list"

text \<open>
  The errors of the store that the client code can see, with the SQLSTATE
  the client compares against (\<^verbatim>\<open>error.code\<close>).
\<close>

datatype pg_error =
    unique_violation
  | check_violation
  | not_null_violation
  | foreign_key_violation
  | insufficient_privilege

fun code :: "pg_error \<Rightarrow> string" where
  "code unique_violation = ''23505''"
| "code check_violation = ''23514''"
| "code not_null_violation = ''23502''"
| "code foreign_key_violation = ''23503''"
| "code insufficient_privilege = ''42501''"

text \<open>
  Modelled from the spec: \<^verbatim>\<open>has_role(auth.uid(), r)\<close>, which the policies
  call and which is declared in a migration that is not among the sources.
  The spec has every actor carry declared roles (coach, umpire, employee,
  admin); the client's queries on \<^verbatim>\<open>user_roles\<close> and the
  \<^verbatim>\<open>INSERT INTO public.user_roles (user_id, role)\<close> of the admin migration
  show where they are kept: the user has a role when \<^verbatim>\<open>user_roles\<close> holds
  the row of the user and the role.
\<close>

definition has_role :: "store \<Rightarrow> uuid \<Rightarrow> app_role \<Rightarrow> bool" where
  "has_role db uid r = ((uid, r) \<in> set (user_roles db))"

subsection \<open>Row level security on games\<close>

text \<open>
  The permissive policies of one command are joined by \<open>or\<close>. A policy
  without \<^verbatim>\<open>WITH CHECK\<close> checks the new row with its \<^verbatim>\<open>USING\<close>
  expression. The policies of \<^verbatim>\<open>UPDATE\<close> on games are "Coaches can update
  their own games", "Employees can manage all games" (\<^verbatim>\<open>FOR ALL\<close>) and
  "Umpires can accept unassigned games".
\<close>

definition games_insert_check :: "store \<Rightarrow> uuid \<Rightarrow> game \<Rightarrow> bool" where
  "games_insert_check db uid g = (uid = coach_id g \<or> has_role db uid employee)"

definition games_update_using :: "store \<Rightarrow> uuid \<Rightarrow> game \<Rightarrow> bool" where
  "games_update_using db uid g =
     (uid = coach_id g \<or> has_role db uid employee \<or>
      (has_role db uid umpire \<and> assigned_umpire_id g = None \<and> status g = pending))"

definition games_update_check :: "store \<Rightarrow> uuid \<Rightarrow> game \<Rightarrow> bool" where
  "games_update_check db uid g =
     (uid = coach_id g \<or> has_role db uid employee \<or>
      (has_role db uid umpire \<and> assigned_umpire_id g = Some uid \<and> status g = assigned))"

text \<open>
  \<^verbatim>\<open>INSERT INTO games\<close> by the user \<open>uid\<close>: the row level check comes
  first, then the primary key.
\<close>

definition insert_games :: "store \<Rightarrow> uuid \<Rightarrow> game \<Rightarrow> pg_error + store" where
  "insert_games db uid g =
     (if \<not> games_insert_check db uid g then Inl insufficient_privilege
      else if id g \<in> set (map id (games db)) then Inl unique_violation
      else Inr (db\<lparr>games := games db @ [g]\<rparr>))"

text \<open>
  \<^verbatim>\<open>UPDATE games SET ... WHERE id = gid\<close> by the user \<open>uid\<close>. A row that
  no \<^verbatim>\<open>USING\<close> expression admits is passed over without an error; a new
  row that no \<^verbatim>\<open>WITH CHECK\<close> expression admits aborts the statement. The
  \<^verbatim>\<open>SELECT\<close> policies, which the \<^verbatim>\<open>WHERE\<close> clause also brings in, admit
  every row that these expressions admit.
\<close>

definition update_games ::
  "store \<Rightarrow> uuid \<Rightarrow> uuid \<Rightarrow> (game \<Rightarrow> game) \<Rightarrow> pg_error + store" where
  "update_games db uid gid f =
     (let hit = (\<lambda>g. id g = gid \<and> games_update_using db uid g)
      in if list_ex (\<lambda>g. hit g \<and> \<not> games_update_check db uid (f g)) (games db)
         then Inl insufficient_privilege
         else Inr (db\<lparr>games := map (\<lambda>g. if hit g then f g else g) (games db)\<rparr>))"

subsection \<open>Row level security on umpire requests\<close>

definition umpire_requests_insert_check :: "store \<Rightarrow> uuid \<Rightarrow> umpire_request \<Rightarrow> bool" where
  "umpire_requests_insert_check db uid r =
     (uid = request_coach_id r \<or> has_role db uid employee)"

definition insert_umpire_requests ::
  "store \<Rightarrow> uuid \<Rightarrow> umpire_request \<Rightarrow> pg_error + store" where
  "insert_umpire_requests db uid r =
     (if \<not> umpire_requests_insert_check db uid r then Inl insufficient_privilege
      else if request_id r \<in> set (map request_id (umpire_requests db)) then Inl unique_violation
      else if request_game_id r \<notin> set (map id (games db)) then Inl foreign_key_violation
      else Inr (db\<lparr>umpire_requests := umpire_requests db @ [r]\<rparr>))"

text \<open>
  The only policy that covers \<^verbatim>\<open>UPDATE\<close> on umpire requests is "Employees
  can manage all requests".
\<close>

definition update_umpire_requests ::
  "store \<Rightarrow> uuid \<Rightarrow> uuid \<Rightarrow> (umpire_request \<Rightarrow> umpire_request) \<Rightarrow> pg_error + store" where
  "update_umpire_requests db uid gid f =
     (let hit = (\<lambda>r. request_game_id r = gid \<and> has_role db uid employee)
      in Inr (db\<lparr>umpire_requests := map (\<lambda>r. if hit r then f r else r) (umpire_requests db)\<rparr>))"

subsection \<open>Ratings\<close>

text \<open>
  "Coaches can create ratings for completed games" is the only policy for
  \<^verbatim>\<open>INSERT\<close> on ratings. The column constraint is
  \<^verbatim>\<open>CHECK (rating >= 1 AND rating <= 5)\<close>, the table constraint
  \<^verbatim>\<open>UNIQUE(game_id, coach_id)\<close>. An insert is checked in the order of
  PostgreSQL: row level security, then \<^verbatim>\<open>NOT NULL\<close> and \<^verbatim>\<open>CHECK\<close>,
  then the unique indexes.
\<close>

definition ratings_insert_check :: "store \<Rightarrow> uuid \<Rightarrow> uuid \<Rightarrow> uuid \<Rightarrow> bool" where
  "ratings_insert_check db uid r_coach_id r_game_id =
     (uid = r_coach_id \<and>
      list_ex (\<lambda>g. id g = r_game_id \<and> coach_id g = uid \<and> status g = completed) (games db))"

definition rating_check :: "int \<Rightarrow> bool" where
  "rating_check r = (r \<ge> 1 \<and> r \<le> 5)"

text \<open>
  The payload of the client's insert: \<^verbatim>\<open>umpire_id\<close> is read from the
  game the dialog shows and may be \<^verbatim>\<open>null\<close>; \<open>new_id\<close> and \<open>now\<close>
  stand for the defaults \<^verbatim>\<open>gen_random_uuid()\<close> and \<^verbatim>\<open>now()\<close>.
\<close>

definition insert_ratings ::
  "store \<Rightarrow> uuid \<Rightarrow> uuid \<Rightarrow> timestamp \<Rightarrow>
   uuid \<Rightarrow> uuid \<Rightarrow> uuid option \<Rightarrow> int \<Rightarrow> string option \<Rightarrow> pg_error + store" where
  "insert_ratings db uid new_id now r_game_id r_coach_id r_umpire_id r_rating r_comment =
     (if \<not> ratings_insert_check db uid r_coach_id r_game_id then Inl insufficient_privilege
      else case r_umpire_id of
        None \<Rightarrow> Inl not_null_violation
      | Some u \<Rightarrow>
          if \<not> rating_check r_rating then Inl check_violation
          else if list_ex (\<lambda>r. rating_id r = new_id \<or>
                    (rating_game_id r = r_game_id \<and> rating_coach_id r = r_coach_id)) (ratings db)
          then Inl unique_violation
          else Inr (db\<lparr>ratings := ratings db @
                 [\<lparr>rating_id = new_id, rating_game_id = r_game_id, rating_coach_id = r_coach_id,
                   umpire_id = u, rating = r_rating, comment = r_comment,
                   created_at = now\<rparr>]\<rparr>))"

text \<open>
  Row level security is enabled on ratings and the migrations declare no
  policy for \<^verbatim>\<open>UPDATE\<close>: no row is admitted, and the statement ends
  without an error and without a change.
\<close>

definition ratings_update_using :: "store \<Rightarrow> uuid \<Rightarrow> rating_row \<Rightarrow> bool" where
  "ratings_update_using db uid r = False"

definition update_ratings ::
  "store \<Rightarrow> uuid \<Rightarrow> uuid \<Rightarrow> (rating_row \<Rightarrow> rating_row) \<Rightarrow> pg_error + store" where
  "update_ratings db uid rid f =
     (let hit = (\<lambda>r. rating_id r = rid \<and> ratings_update_using db uid r)
      in if list_ex (\<lambda>r. hit r \<and> \<not> rating_check (rating (f r))) (ratings db)
         then Inl check_violation
         else Inr (db\<lparr>ratings := map (\<lambda>r. if hit r then f r else r) (ratings db)\<rparr>))"

subsection \<open>External umpire leads\<close>

definition external_umpire_leads_insert_check ::
  "store \<Rightarrow> uuid \<Rightarrow> external_umpire_lead \<Rightarrow> bool" where
  "external_umpire_leads_insert_check db uid l =
     (uid = lead_coach_id l \<or> has_role db uid employee)"

definition insert_external_umpire_leads ::
  "store \<Rightarrow> uuid \<Rightarrow> external_umpire_lead \<Rightarrow> pg_error + store" where
  "insert_external_umpire_leads db uid l =
     (if \<not> external_umpire_leads_insert_check db uid l then Inl insufficient_privilege
      else if lead_id l \<in> set (map lead_id (external_umpire_leads db)) then Inl unique_violation
      else if lead_game_id l \<notin> set (map id (games db)) then Inl foreign_key_violation
      else Inr (db\<lparr>external_umpire_leads := external_umpire_leads db @ [l]\<rparr>))"

section \<open>The client operations\<close>

text \<open>
  Every handler is a function from the store (and the state of its dialog)
  to the toast it shows and the store it leaves. The position of a wizard in
  its list of games is not part of the model. \<open>toast_error_message p e\<close> is
  \<^verbatim>\<open>toast.error(p + error.message)\<close>.
\<close>

datatype toast =
    toast_success string
  | toast_error string
  | toast_error_message string pg_error
  | no_toast

text \<open>
  The part of the JavaScript runtime and of the libraries that the handlers
  call and that is no code of this repository. \<open>new_Date s\<close> is
  \<^verbatim>\<open>new Date(s)\<close>, \<open>None\<close> when its \<^verbatim>\<open>getTime()\<close> is NaN;
  \<open>iso_date\<close> is \<^verbatim>\<open>toISOString().split("T")[0]\<close>. \<open>setHours d t\<close> is the
  instant of \<^verbatim>\<open>d.setHours(parseInt(hours), parseInt(minutes))\<close> for the
  two parts of \<open>t\<close>, \<open>None\<close> when \<^verbatim>\<open>toISOString()\<close> throws on it.
  The fields of \<open>date_code\<close> are \<^verbatim>\<open>y\<close>, \<^verbatim>\<open>m\<close>, \<^verbatim>\<open>d\<close>,
  \<^verbatim>\<open>H\<close> and \<^verbatim>\<open>M\<close> of the object that \<^verbatim>\<open>XLSX.SSF.parse_date_code\<close>
  returns.
\<close>

record js_date =
  getTime :: timestamp
  iso_date :: string
  getHours :: nat
  getMinutes :: nat

record date_code =
  code_y :: nat
  code_m :: nat
  code_d :: nat
  code_H :: nat
  code_M :: nat

record runtime =
  new_Date :: "string \<Rightarrow> js_date option"
  parse_date_code :: "real \<Rightarrow> date_code option"
  number_toString :: "real \<Rightarrow> string"
  setHours :: "timestamp \<Rightarrow> string \<Rightarrow> timestamp option"

text \<open>Truthiness of \<^verbatim>\<open>string | null\<close>, and \<^verbatim>\<open>s || null\<close>.\<close>

fun truthy_string :: "string option \<Rightarrow> bool" where
  "truthy_string None = False"
| "truthy_string (Some s) = (s \<noteq> [])"

definition or_null :: "string \<Rightarrow> string option" where
  "or_null s = (if s = [] then None else Some s)"

text \<open>
  \<^verbatim>\<open>String.prototype.trim\<close>, on the white space and line terminators of
  ASCII (a \<open>char\<close> is a byte).
\<close>

definition is_space :: "char \<Rightarrow> bool" where
  "is_space c = (c \<in> set [CHR 0x20, CHR 0x09, CHR 0x0A, CHR 0x0B, CHR 0x0C, CHR 0x0D])"

definition trim :: "string \<Rightarrow> string" where
  "trim s = rev (dropWhile is_space (rev (dropWhile is_space s)))"

subsection \<open>GameLifecycle: create\<close>

text \<open>\<^verbatim>\<open>handleSubmit\<close> of RequestUmpireDialog (the coach creates a game).\<close>

definition RequestUmpireDialog_handleSubmit ::
  "runtime \<Rightarrow> store \<Rightarrow> uuid option \<Rightarrow> timestamp option \<Rightarrow> string \<Rightarrow> string \<Rightarrow> string \<Rightarrow>
   uuid \<Rightarrow> uuid \<Rightarrow> toast \<times> store" where
  "RequestUmpireDialog_handleSubmit rt db user date time opponent' location' new_game_id new_request_id =
     (case (user, date) of
        (Some uid, Some day) \<Rightarrow>
          (case setHours rt day time of
             None \<Rightarrow> (toast_error ''Failed to submit request'', db)
           | Some gameDateTime \<Rightarrow>
               (case insert_games db uid
                       \<lparr>id = new_game_id, coach_id = uid, game_date = gameDateTime,
                        location = location', opponent = opponent', status = pending,
                        assigned_umpire_id = None, latitude = None, longitude = None\<rparr> of
                  Inl gameError \<Rightarrow> (toast_error ''Failed to submit request'', db)
                | Inr db1 \<Rightarrow>
                    (case insert_umpire_requests db1 uid
                            \<lparr>request_id = new_request_id, request_game_id = new_game_id,
                             request_coach_id = uid, request_status = req_pending\<rparr> of
                       Inl requestError \<Rightarrow> (toast_error ''Failed to submit request'', db1)
                     | Inr db2 \<Rightarrow>
                         (toast_success ''Umpire request submitted successfully!'', db2))))
      | _ \<Rightarrow> (no_toast, db))"

text \<open>
  \<^verbatim>\<open>handleSubmit\<close> of CreateGameRequestDialog (staff create a game for the
  coach they selected); \<open>uid\<close> is the user of the session. Where
  \<^verbatim>\<open>toISOString()\<close> throws, the text of its error is not part of the toast
  of the model.
\<close>

definition CreateGameRequestDialog_handleSubmit ::
  "runtime \<Rightarrow> store \<Rightarrow> uuid \<Rightarrow> string \<Rightarrow> timestamp option \<Rightarrow> string \<Rightarrow> string \<Rightarrow> string \<Rightarrow>
   uuid \<Rightarrow> uuid \<Rightarrow> toast \<times> store" where
  "CreateGameRequestDialog_handleSubmit rt db uid selectedCoachId date time opponent' location'
      new_game_id new_request_id =
     (case date of
        None \<Rightarrow> (toast_error ''Please select a coach and date'', db)
      | Some day \<Rightarrow>
          if selectedCoachId = [] then (toast_error ''Please select a coach and date'', db)
          else
            (case setHours rt day time of
               None \<Rightarrow> (toast_error ''Failed to create request: '', db)
             | Some gameDateTime \<Rightarrow>
                 (case insert_games db uid
                         \<lparr>id = new_game_id, coach_id = selectedCoachId, game_date = gameDateTime,
                          location = location', opponent = opponent', status = pending,
                          assigned_umpire_id = None, latitude = None, longitude = None\<rparr> of
                    Inl gameError \<Rightarrow> (toast_error_message ''Failed to create request: '' gameError, db)
                  | Inr db1 \<Rightarrow>
                      (case insert_umpire_requests db1 uid
                              \<lparr>request_id = new_request_id, request_game_id = new_game_id,
                               request_coach_id = selectedCoachId, request_status = req_pending\<rparr> of
                         Inl requestError \<Rightarrow>
                           (toast_error_message ''Failed to create request: '' requestError, db1)
                       | Inr db2 \<Rightarrow>
                           (toast_success ''Game and umpire request created successfully!'', db2)))))"

subsection \<open>GameLifecycle: accept (UmpireDashboard)\<close>

text \<open>
  \<^verbatim>\<open>handleAcceptGame\<close>. \<open>myGames\<close> is the dashboard's list of the umpire's
  games. The result of the second update is not read by the handler.
\<close>

definition handleAcceptGame ::
  "store \<Rightarrow> uuid option \<Rightarrow> game list \<Rightarrow> uuid \<Rightarrow> timestamp \<Rightarrow> real option \<Rightarrow> real option \<Rightarrow>
   toast \<times> store" where
  "handleAcceptGame db user myGames gameId gameDate gameLat gameLng =
     (case user of
        None \<Rightarrow> (no_toast, db)
      | Some uid \<Rightarrow>
          if checkDoubleBooking myGames gameDate gameLat gameLng then
            (toast_error
               ''Cannot accept: This game conflicts with your existing schedule (including travel time)'',
             db)
          else
            (case update_games db uid gameId
                    (\<lambda>g. g\<lparr>assigned_umpire_id := Some uid, status := assigned\<rparr>) of
               Inl error \<Rightarrow> (toast_error_message ''Error accepting game: '' error, db)
             | Inr db1 \<Rightarrow>
                 (toast_success ''Game accepted successfully!'',
                  (case update_umpire_requests db1 uid gameId
                          (\<lambda>r. r\<lparr>request_status := accepted\<rparr>) of
                     Inl e \<Rightarrow> db1
                   | Inr db2 \<Rightarrow> db2))))"

subsection \<open>ReconciliationQueue: assigned and lapsed (CoachDashboard)\<close>

text \<open>
  \<^verbatim>\<open>checkPastGames\<close>: the games the confirm wizard is opened with, read
  at the instant \<open>now\<close> by the coach \<open>uid\<close>.
\<close>

definition checkPastGames :: "store \<Rightarrow> uuid \<Rightarrow> timestamp \<Rightarrow> game list" where
  "checkPastGames db uid now =
     sort_key game_date
       (filter (\<lambda>g. coach_id g = uid \<and> status g = assigned \<and>
                     assigned_umpire_id g \<noteq> None \<and> game_date g < now) (games db))"

text \<open>\<^verbatim>\<open>handleConfirmAndRate\<close> of PastGamesNotificationDialog.\<close>

definition handleConfirmAndRate ::
  "store \<Rightarrow> uuid option \<Rightarrow> game option \<Rightarrow> bool \<Rightarrow> int \<Rightarrow> string \<Rightarrow> uuid \<Rightarrow> timestamp \<Rightarrow>
   toast \<times> store" where
  "handleConfirmAndRate db user currentGame noShow rating' comment' new_id now =
     (case (user, currentGame) of
        (Some uid, Some g) \<Rightarrow>
          if \<not> noShow \<and> rating' = 0 then
            (toast_error ''Please provide a rating or mark as no-show before confirming'', db)
          else
            (let finalRating = (if noShow then 0 else rating') in
             case update_games db uid (id g) (\<lambda>r. r\<lparr>status := completed\<rparr>) of
               Inl gameError \<Rightarrow> (toast_error ''Failed to confirm game. Please try again.'', db)
             | Inr db1 \<Rightarrow>
                 (case insert_ratings db1 uid new_id now
                         (id g) uid (assigned_umpire_id g) finalRating (or_null comment') of
                    Inl ratingError \<Rightarrow>
                      if code ratingError \<noteq> ''23505'' then
                        (toast_error ''Failed to confirm game. Please try again.'', db1)
                      else (toast_success ''Game confirmed and rating submitted!'', db1)
                  | Inr db2 \<Rightarrow> (toast_success ''Game confirmed and rating submitted!'', db2)))
      | _ \<Rightarrow> (toast_error ''Please provide a rating or mark as no-show before confirming'', db))"

subsection \<open>ReconciliationQueue: pending and lapsed\<close>

text \<open>
  \<^verbatim>\<open>handleSubmit\<close> of PastPendingGamesDialog. \<open>gameCompleted\<close> is
  \<^verbatim>\<open>boolean | null\<close>; the handler tests its truthiness only.
\<close>

definition PastPendingGamesDialog_handleSubmit ::
  "store \<Rightarrow> uuid option \<Rightarrow> game option \<Rightarrow> bool option \<Rightarrow>
   string \<Rightarrow> string \<Rightarrow> string \<Rightarrow> string \<Rightarrow> uuid \<Rightarrow> toast \<times> store" where
  "PastPendingGamesDialog_handleSubmit db user currentGame gameCompleted
      umpireName umpireContact howFound notes' new_id =
     (case currentGame of
        None \<Rightarrow> (no_toast, db)
      | Some g \<Rightarrow>
          (case user of
             None \<Rightarrow> (toast_error ''Failed to save game information'', db)
           | Some uid \<Rightarrow>
               if gameCompleted = Some True then
                 (case insert_external_umpire_leads db uid
                         \<lparr>lead_id = new_id, lead_game_id = id g, lead_coach_id = uid,
                          umpire_name = trim umpireName,
                          umpire_contact = or_null (trim umpireContact),
                          how_found = howFound,
                          lead_notes = or_null (trim notes')\<rparr> of
                    Inl leadError \<Rightarrow> (toast_error ''Failed to save game information'', db)
                  | Inr db1 \<Rightarrow>
                      (case update_games db1 uid (id g) (\<lambda>r. r\<lparr>status := completed\<rparr>) of
                         Inl gameError \<Rightarrow> (toast_error ''Failed to save game information'', db1)
                       | Inr db2 \<Rightarrow> (toast_success ''Game information saved!'', db2)))
               else
                 (case update_games db uid (id g) (\<lambda>r. r\<lparr>status := cancelled\<rparr>) of
                    Inl gameError \<Rightarrow> (toast_error ''Failed to save game information'', db)
                  | Inr db1 \<Rightarrow> (toast_success ''Game marked as cancelled'', db1))))"

section \<open>RatingLedger\<close>

text \<open>
  \<^verbatim>\<open>handleSubmit\<close> of RateUmpireDialog, first version: it inserts a new
  rating. \<open>game'\<close> is the game the dialog was opened for.
\<close>

definition RateUmpireDialog_handleSubmit ::
  "store \<Rightarrow> uuid option \<Rightarrow> game \<Rightarrow> int \<Rightarrow> string \<Rightarrow> uuid \<Rightarrow> timestamp \<Rightarrow> toast \<times> store" where
  "RateUmpireDialog_handleSubmit db user game' rating' comment' new_id now =
     (case user of
        None \<Rightarrow> (no_toast, db)
      | Some uid \<Rightarrow>
          if \<not> truthy_string (assigned_umpire_id game') \<or> rating' = 0 then (no_toast, db)
          else
            (case insert_ratings db uid new_id now
                    (id game') uid (assigned_umpire_id game') rating' (or_null comment') of
               Inl error \<Rightarrow>
                 if code error = ''23505'' then
                   (toast_error ''You have already rated this umpire for this game'', db)
                 else (toast_error ''Failed to submit rating'', db)
             | Inr db1 \<Rightarrow> (toast_success ''Rating submitted successfully!'', db1)))"

text \<open>
  \<^verbatim>\<open>handleSubmit\<close> of RateUmpireDialog, second version: it updates the
  rating the dialog was opened with (\<^verbatim>\<open>game.existing_rating\<close>), or
  inserts a new one; a no-show is the rating 0.
\<close>

definition RateUmpireDialog_handleSubmit_edit ::
  "store \<Rightarrow> uuid option \<Rightarrow> game \<Rightarrow> rating_row option \<Rightarrow> bool \<Rightarrow> int \<Rightarrow> string \<Rightarrow>
   uuid \<Rightarrow> timestamp \<Rightarrow> toast \<times> store" where
  "RateUmpireDialog_handleSubmit_edit db user game' existing_rating noShow rating' comment'
      new_id now =
     (case user of
        None \<Rightarrow> (no_toast, db)
      | Some uid \<Rightarrow>
          if \<not> truthy_string (assigned_umpire_id game') \<or> (\<not> noShow \<and> rating' = 0)
          then (no_toast, db)
          else
            (let finalRating = (if noShow then 0 else rating') in
             case existing_rating of
               Some existing \<Rightarrow>
                 (case update_ratings db uid (rating_id existing)
                         (\<lambda>r. r\<lparr>rating := finalRating, comment := or_null comment'\<rparr>) of
                    Inl error \<Rightarrow>
                      if code error = ''23505'' then
                        (toast_error ''You have already rated this umpire for this game'', db)
                      else (toast_error ''Failed to submit rating'', db)
                  | Inr db1 \<Rightarrow> (toast_success ''Rating updated successfully!'', db1))
             | None \<Rightarrow>
                 (case insert_ratings db uid new_id now
                         (id game') uid (assigned_umpire_id game') finalRating (or_null comment') of
                    Inl error \<Rightarrow>
                      if code error = ''23505'' then
                        (toast_error ''You have already rated this umpire for this game'', db)
                      else (toast_error ''Failed to submit rating'', db)
                  | Inr db1 \<Rightarrow> (toast_success ''Rating submitted successfully!'', db1))))"

text \<open>
  \<^verbatim>\<open>differenceInHours\<close> of date-fns: the number of full hours between two
  instants, rounded towards zero.
\<close>

definition differenceInHours :: "timestamp \<Rightarrow> timestamp \<Rightarrow> int" where
  "differenceInHours dateLeft dateRight =
     (if dateRight \<le> dateLeft then (dateLeft - dateRight) div 3600000
      else - ((dateRight - dateLeft) div 3600000))"

text \<open>
  \<^verbatim>\<open>canEditRating\<close> of CoachDashboard, at the instant \<open>now\<close>
  (\<^verbatim>\<open>new Date()\<close>). It decides whether the dashboard shows the edit button
  of a rating or the label "Rated".
\<close>

definition canEditRating :: "timestamp \<Rightarrow> rating_row \<Rightarrow> bool" where
  "canEditRating now rating' =
     (let hoursSinceCreation = differenceInHours now (created_at rating')
      in hoursSinceCreation < 24)"

section \<open>BulkImportValidator (BulkUploadGamesDialog)\<close>

text \<open>
  A row of \<^verbatim>\<open>sheet_to_json\<close> is an object from column names to cell values;
  a cell holds a number or a string, and a missing column reads as
  \<^verbatim>\<open>undefined\<close>.
\<close>

datatype cell = Num real | Str string

type_synonym row = "string \<Rightarrow> cell option"

fun truthy_value :: "cell \<Rightarrow> bool" where
  "truthy_value (Num x) = (x \<noteq> 0)"
| "truthy_value (Str s) = (s \<noteq> [])"

text \<open>\<^verbatim>\<open>c1 || c2 || ... || last\<close>: the first truthy operand, else the last one.\<close>

fun first_truthy :: "cell option list \<Rightarrow> cell \<Rightarrow> cell" where
  "first_truthy [] last' = last'"
| "first_truthy (None # cs) last' = first_truthy cs last'"
| "first_truthy (Some v # cs) last' = (if truthy_value v then v else first_truthy cs last')"

fun toString :: "runtime \<Rightarrow> cell \<Rightarrow> string" where
  "toString rt (Num x) = number_toString rt x"
| "toString rt (Str s) = s"

text \<open>\<^verbatim>\<open>String(n)\<close> for a natural number, and \<^verbatim>\<open>padStart(2, "0")\<close>.\<close>

fun string_of_nat :: "nat \<Rightarrow> string" where
  "string_of_nat n =
     (if n < 10 then [''0123456789'' ! n]
      else string_of_nat (n div 10) @ [''0123456789'' ! (n mod 10)])"

declare string_of_nat.simps [simp del]

definition padStart2 :: "string \<Rightarrow> string" where
  "padStart2 s = replicate (2 - length s) (CHR ''0'') @ s"

fun join :: "string \<Rightarrow> string list \<Rightarrow> string" where
  "join sep [] = []"
| "join sep [x] = x"
| "join sep (x # xs) = x @ sep @ join sep xs"

text \<open>
  \<^verbatim>\<open>parseExcelDate\<close>; the result is the pair of \<^verbatim>\<open>date\<close> and
  \<^verbatim>\<open>time\<close>, \<open>None\<close> for \<^verbatim>\<open>null\<close>.
\<close>

definition parseExcelDate :: "runtime \<Rightarrow> cell \<Rightarrow> (string \<times> string) option" where
  "parseExcelDate rt value =
     (if \<not> truthy_value value then None
      else case value of
        Num x \<Rightarrow>
          (case parse_date_code rt x of
             Some date \<Rightarrow>
               (let dateStr = string_of_nat (code_y date) @ ''-'' @
                              padStart2 (string_of_nat (code_m date)) @ ''-'' @
                              padStart2 (string_of_nat (code_d date));
                    timeStr = padStart2 (string_of_nat (code_H date)) @ '':'' @
                              padStart2 (string_of_nat (code_M date))
                in Some (dateStr, timeStr))
           | None \<Rightarrow> None)
      | Str s \<Rightarrow>
          (case new_Date rt s of
             Some parsed \<Rightarrow>
               (let dateStr = iso_date parsed;
                    timeStr = padStart2 (string_of_nat (getHours parsed)) @ '':'' @
                              padStart2 (string_of_nat (getMinutes parsed))
                in Some (dateStr, timeStr))
           | None \<Rightarrow> None))"

text \<open>
  The reading of a date cell is free of the time zone of the browser when the
  cell is a spreadsheet serial, which \<^verbatim>\<open>parse_date_code\<close> splits without
  a clock, or a text for which the local time of day that the runtime reports
  (\<^verbatim>\<open>getHours\<close>, \<^verbatim>\<open>getMinutes\<close>) is the time of day of the instant in
  UTC, the zone of \<^verbatim>\<open>toISOString\<close>.
\<close>

definition zone_free_reading :: "runtime \<Rightarrow> cell \<Rightarrow> bool" where
  "zone_free_reading rt value =
     (case value of
        Num x \<Rightarrow> True
      | Str s \<Rightarrow>
          (case new_Date rt s of
             None \<Rightarrow> True
           | Some parsed \<Rightarrow>
               int (getHours parsed) * 60 + int (getMinutes parsed)
                 = (getTime parsed div 60000) mod 1440))"

record ParsedGame =
  parsed_opponent :: string
  parsed_location :: string
  parsed_date :: string
  parsed_time :: string
  parsed_valid :: bool
  parsed_error :: "string option"

text \<open>
  The function that \<^verbatim>\<open>handleFileUpload\<close> maps over the rows of the sheet.
  Its first five constants, which read the columns under their accepted
  names, are definitions of their own.
\<close>

definition row_opponent :: "row \<Rightarrow> cell" where
  "row_opponent row = first_truthy [row ''opponent'', row ''Opponent'', row ''OPPONENT''] (Str [])"

definition row_location :: "row \<Rightarrow> cell" where
  "row_location row = first_truthy [row ''location'', row ''Location'', row ''LOCATION''] (Str [])"

definition row_dateValue :: "row \<Rightarrow> cell" where
  "row_dateValue row =
     first_truthy [row ''date'', row ''Date'', row ''DATE'', row ''game_date'', row ''GameDate'']
       (Str [])"

definition row_timeValue :: "row \<Rightarrow> cell" where
  "row_timeValue row =
     first_truthy [row ''time'', row ''Time'', row ''TIME'', row ''game_time'', row ''GameTime'']
       (Str ''18:00'')"

definition row_dateTimeValue :: "row \<Rightarrow> cell" where
  "row_dateTimeValue row =
     first_truthy [row ''datetime'', row ''DateTime'', row ''DATETIME'', row ''game_datetime'']
       (Str [])"

definition handleFileUpload_row :: "runtime \<Rightarrow> row \<Rightarrow> ParsedGame" where
  "handleFileUpload_row rt row =
     (let opponent' = row_opponent row;
          location' = row_location row;
          dateValue = row_dateValue row;
          timeValue = row_timeValue row;
          dateTimeValue = row_dateTimeValue row;
          (parsedDate, parsedTime) =
            (if truthy_value dateTimeValue then
               (case parseExcelDate rt dateTimeValue of
                  Some (date', time') \<Rightarrow> (Str date', Str time')
                | None \<Rightarrow> (dateValue, timeValue))
             else if truthy_value dateValue then
               (case parseExcelDate rt dateValue of
                  Some (date', time') \<Rightarrow>
                    (Str date', if time' \<noteq> ''00:00'' then Str time' else timeValue)
                | None \<Rightarrow> (dateValue, timeValue))
             else (dateValue, timeValue));
          errors = (if \<not> truthy_value opponent' then [''Missing opponent''] else []) @
                   (if \<not> truthy_value location' then [''Missing location''] else []) @
                   (if \<not> truthy_value parsedDate then [''Missing/invalid date''] else [])
      in \<lparr>parsed_opponent = trim (toString rt opponent'),
          parsed_location = trim (toString rt location'),
          parsed_date = toString rt parsedDate,
          parsed_time = (if toString rt parsedTime = [] then ''18:00'' else toString rt parsedTime),
          parsed_valid = (length errors = 0),
          parsed_error = (if length errors > 0 then Some (join '', '' errors) else None)\<rparr>)"

definition handleFileUpload :: "runtime \<Rightarrow> row list \<Rightarrow> ParsedGame list" where
  "handleFileUpload rt jsonData = map (handleFileUpload_row rt) jsonData"

text \<open>
  \<^verbatim>\<open>handleSubmit\<close> of BulkUploadGamesDialog. \<open>BulkUpload_loop\<close> is its
  \<^verbatim>\<open>for\<close> loop over \<^verbatim>\<open>validGames\<close>, with the store and the two
  counters as its state; \<open>ids i\<close> are the identifiers that the store
  generates for the game and the request of the \<open>i\<close>-th row of the loop.
\<close>

fun BulkUpload_loop ::
  "runtime \<Rightarrow> uuid \<Rightarrow> string \<Rightarrow> (nat \<Rightarrow> uuid \<times> uuid) \<Rightarrow> nat \<Rightarrow> ParsedGame list \<Rightarrow>
   store \<times> nat \<times> nat \<Rightarrow> store \<times> nat \<times> nat" where
  "BulkUpload_loop rt uid selectedCoachId ids i [] st = st"
| "BulkUpload_loop rt uid selectedCoachId ids i (game' # validGames) (db, successCount, errorCount) =
     BulkUpload_loop rt uid selectedCoachId ids (Suc i) validGames
       (case new_Date rt (parsed_date game' @ ''T'' @ parsed_time game') of
          None \<Rightarrow> (db, successCount, errorCount + 1)
        | Some gameDateTime \<Rightarrow>
            (case insert_games db uid
                    \<lparr>id = fst (ids i), coach_id = selectedCoachId,
                     game_date = getTime gameDateTime,
                     location = parsed_location game', opponent = parsed_opponent game',
                     status = pending, assigned_umpire_id = None,
                     latitude = None, longitude = None\<rparr> of
               Inl gameError \<Rightarrow> (db, successCount, errorCount + 1)
             | Inr db1 \<Rightarrow>
                 (case insert_umpire_requests db1 uid
                         \<lparr>request_id = snd (ids i), request_game_id = fst (ids i),
                          request_coach_id = selectedCoachId, request_status = req_pending\<rparr> of
                    Inl requestError \<Rightarrow> (db1, successCount, errorCount + 1)
                  | Inr db2 \<Rightarrow> (db2, successCount + 1, errorCount))))"

definition BulkUpload_handleSubmit ::
  "runtime \<Rightarrow> store \<Rightarrow> uuid \<Rightarrow> string \<Rightarrow> ParsedGame list \<Rightarrow> (nat \<Rightarrow> uuid \<times> uuid) \<Rightarrow>
   toast \<times> store" where
  "BulkUpload_handleSubmit rt db uid selectedCoachId parsedGames ids =
     (if selectedCoachId = [] then (toast_error ''Please select a coach'', db)
      else
        (let validGames = filter parsed_valid parsedGames in
         if length validGames = 0 then (toast_error ''No valid games to upload'', db)
         else
           (case BulkUpload_loop rt uid selectedCoachId ids 0 validGames (db, 0, 0) of
              (db', successCount, errorCount) \<Rightarrow>
                if successCount > 0 then
                  (toast_success (''Created '' @ string_of_nat successCount @ '' games successfully'' @
                     (if errorCount > 0 then '', '' @ string_of_nat errorCount @ '' failed'' else [])),
                   db')
                else (toast_error ''Failed to create any games'', db'))))"

section \<open>Invariants of the data model\<close>

text \<open>
  The invariant of a game: the assigned provider is set if and only if the
  status is \<open>assigned\<close> or \<open>completed\<close>; and the half of it that says
  that only such a game has a provider.
\<close>

definition provider_invariant :: "game \<Rightarrow> bool" where
  "provider_invariant g =
     (assigned_umpire_id g \<noteq> None \<longleftrightarrow> status g = assigned \<or> status g = completed)"

definition store_invariant :: "store \<Rightarrow> bool" where
  "store_invariant db = list_all provider_invariant (games db)"

definition provider_only_if_assigned :: "game \<Rightarrow> bool" where
  "provider_only_if_assigned g =
     (assigned_umpire_id g = None \<or> status g = assigned \<or> status g = completed)"

text \<open>At most one rating for a pair of game and coach.\<close>

definition ratings_unique :: "store \<Rightarrow> bool" where
  "ratings_unique db =
     distinct (map (\<lambda>r. (rating_game_id r, rating_coach_id r)) (ratings db))"

section \<open>Example data\<close>

text \<open>
  A small store used where a property is checked on concrete rows: the coach
  \<open>c1\<close> has one game that the umpire \<open>u1\<close> accepted and one game that
  nobody accepted; \<open>u2\<close> is another umpire, \<open>e1\<close> a member of staff.
\<close>

definition example_assigned_game :: game where
  "example_assigned_game =
     \<lparr>id = ''g1'', coach_id = ''c1'', game_date = 0, location = ''Field 3'',
      opponent = ''Tigers'', status = assigned, assigned_umpire_id = Some ''u1'',
      latitude = Some 1, longitude = Some 1\<rparr>"

definition example_pending_game :: game where
  "example_pending_game =
     \<lparr>id = ''g2'', coach_id = ''c1'', game_date = 50, location = ''Field 4'',
      opponent = ''Lions'', status = pending, assigned_umpire_id = None,
      latitude = None, longitude = None\<rparr>"

definition example_store :: store where
  "example_store =
     \<lparr>games = [example_assigned_game, example_pending_game],
      umpire_requests =
        [\<lparr>request_id = ''q1'', request_game_id = ''g1'', request_coach_id = ''c1'',
          request_status = accepted\<rparr>,
         \<lparr>request_id = ''q2'', request_game_id = ''g2'', request_coach_id = ''c1'',
          request_status = req_pending\<rparr>],
      ratings = [],
      external_umpire_leads = [],
      user_roles = [(''c1'', coach), (''u1'', umpire), (''u2'', umpire), (''e1'', employee)]\<rparr>"

text \<open>
  The same store after the game \<open>g1\<close> was completed and rated by its coach.
\<close>

definition example_rating :: rating_row where
  "example_rating =
     \<lparr>rating_id = ''r1'', rating_game_id = ''g1'', rating_coach_id = ''c1'', umpire_id = ''u1'',
      rating = 4, comment = None, created_at = 7200000\<rparr>"

definition example_rated_store :: store where
  "example_rated_store =
     example_store\<lparr>games := [example_assigned_game\<lparr>status := completed\<rparr>, example_pending_game],
                   ratings := [example_rating]\<rparr>"

text \<open>
  A runtime for the bulk import, as far as the examples need it: a browser
  whose time zone is UTC. A date-only string is read as midnight UTC, a date
  with a time as local time; \<^verbatim>\<open>getHours\<close> is local,
  \<^verbatim>\<open>toISOString\<close> is UTC.
\<close>

definition example_runtime_utc :: runtime where
  "example_runtime_utc =
     \<lparr>new_Date = (\<lambda>s.
        if s = ''2025-06-01'' then
          Some \<lparr>getTime = 1748736000000, iso_date = ''2025-06-01'', getHours = 0, getMinutes = 0\<rparr>
        else if s = ''2025-06-01T14:30'' then
          Some \<lparr>getTime = 1748788200000, iso_date = ''2025-06-01'', getHours = 14, getMinutes = 30\<rparr>
        else None),
      parse_date_code = (\<lambda>x. None),
      number_toString = (\<lambda>x. []),
      setHours = (\<lambda>day t. None)\<rparr>"

definition example_row :: "string \<Rightarrow> row" where
  "example_row date' =
     [''opponent'' \<mapsto> Str ''Tigers'', ''location'' \<mapsto> Str ''Field 3'', ''date'' \<mapsto> Str date']"

section \<open>Properties of the conflict detector\<close>

lemmas example_defs = example_store_def example_assigned_game_def example_pending_game_def
  example_rating_def example_rated_store_def

text \<open>
  The loop of \<open>checkDoubleBooking\<close> answers \<open>True\<close> exactly when some game
  of the list is less than two hours away and either a coordinate is missing
  (or zero) or the gap is below the required buffer, which is here the exact
  value of its formula.
\<close>

lemma checkDoubleBooking_iff:
  "checkDoubleBooking myGames gameDate gameLat gameLng \<longleftrightarrow>
     (\<exists>g \<in> set myGames.
        \<bar>gameDate - game_date g\<bar> < twoHours \<and>
        (truthy gameLat \<and> truthy gameLng \<and> truthy (latitude g) \<and> truthy (longitude g)
           \<longrightarrow> real_of_int \<bar>gameDate - game_date g\<bar>
                 < requiredBuffer (number_of gameLat) (number_of gameLng) g))"
  by (induction myGames) (auto simp: Let_def)

subsection \<open>The distance along a meridian\<close>

lemma atan2_sin_cos:
  assumes "0 \<le> t" "t < pi / 2" "a = sin t * sin t"
  shows "atan2 (sqrt a) (sqrt (1 - a)) = t"
proof -
  have s: "0 \<le> sin t" using assms by (intro sin_ge_zero) (auto simp: field_simps)
  have c: "0 < cos t" using assms by (intro cos_gt_zero_pi) auto
  have "1 - a = cos t * cos t"
    using sin_cos_squared_add [of t] assms(3) by (simp add: power2_eq_square algebra_simps)
  then have c2: "sqrt (1 - a) = cos t" using c by simp
  have s2: "sqrt a = sin t" using s assms(3) by simp
  have "arctan (sin t / cos t) = t"
    using arctan_tan [of t] assms by (simp add: tan_def)
  then show ?thesis using c unfolding atan2_def c2 s2 by simp
qed

lemma calculateDistance_same_meridian:
  assumes "lat1 \<le> lat2" "lat2 - lat1 < 180"
  shows "calculateDistance lat1 lon lat2 lon = 3959 * ((lat2 - lat1) * pi / 180)"
proof -
  define t where "t = (lat2 - lat1) * pi / 180 / 2"
  define a where "a = sin t * sin t"
  have "0 \<le> t" using assms by (simp add: t_def)
  moreover have "t < pi / 2"
  proof -
    have "(lat2 - lat1) * pi < 180 * pi"
      using assms pi_gt_zero by (intro mult_strict_right_mono) auto
    then show ?thesis by (simp add: t_def)
  qed
  ultimately have h1: "atan2 (sqrt a) (sqrt (1 - a)) = t"
    using a_def by (rule atan2_sin_cos)
  have h2: "calculateDistance lat1 lon lat2 lon = 3959 * (2 * atan2 (sqrt a) (sqrt (1 - a)))"
    by (simp add: calculateDistance_def Let_def a_def t_def)
  show ?thesis unfolding h2 h1 t_def by simp
qed

lemma calculateDistance_self: "calculateDistance la lo la lo = 0"
  using calculateDistance_same_meridian [of la la lo] by simp

lemma calculateDistance_thirty_miles:
  "calculateDistance 1 1 (1 + 5400 / (3959 * pi)) 1 = 30"
proof -
  have "5400 < 180 * (3959 * pi)" using pi_ge_two by simp
  then have "5400 / (3959 * pi) < 180" by (simp add: field_simps)
  then show ?thesis
    using calculateDistance_same_meridian [of 1 "1 + 5400 / (3959 * pi)" 1]
    by (simp add: field_simps)
qed

subsection \<open>Claim C2\<close>

text \<open>
  C2 as the specification states it fails: the existing game \<open>g1\<close> is played
  at instant 0 on the field with coordinates (1, 1); a candidate game on the
  same field 90 minutes later is less than two hours away, and
  \<open>checkDoubleBooking\<close> reports no conflict, because the distance is 0 and
  the required buffer is then 60 minutes.
\<close>

theorem C2_same_slot_counterexample:
  "\<bar>5400000 - game_date example_assigned_game\<bar> < twoHours \<and>
   \<not> checkDoubleBooking [example_assigned_game] 5400000 (Some 1) (Some 1)"
  by (simp add: example_defs twoHours_def requiredBuffer_def calculateDistance_self Let_def)

text \<open>
  C2, amended: for every candidate game and every existing assignment of the
  provider whose scheduled instants differ by less than two hours,
  \<open>checkDoubleBooking\<close> decides conflict, regardless of locations,
  whenever one of the two games carries no usable coordinate (null or 0).
  When both carry coordinates the decision is the travel-time comparison of
  the code; for two games on the same coordinates, where the distance is 0,
  it decides conflict when the instants differ by less than the one-hour
  buffer and, with that existing assignment alone, only then.
\<close>

theorem C2_conflict_within_two_hours:
  assumes "g \<in> set myGames"
    and "\<bar>gameDate - game_date g\<bar> < twoHours"
  shows "(\<not> (truthy gameLat \<and> truthy gameLng \<and> truthy (latitude g) \<and> truthy (longitude g))
            \<longrightarrow> checkDoubleBooking myGames gameDate gameLat gameLng) \<and>
         (truthy gameLat \<and> truthy gameLng \<and> latitude g = gameLat \<and> longitude g = gameLng
            \<longrightarrow> (\<bar>gameDate - game_date g\<bar> < 3600000
                    \<longrightarrow> checkDoubleBooking myGames gameDate gameLat gameLng) \<and>
                 (checkDoubleBooking [g] gameDate gameLat gameLng
                    \<longleftrightarrow> \<bar>gameDate - game_date g\<bar> < 3600000))"
proof -
  have same: "requiredBuffer (number_of gameLat) (number_of gameLng) g = 3600000"
    if "latitude g = gameLat" "longitude g = gameLng"
    using that by (simp add: requiredBuffer_def calculateDistance_self Let_def)
  have less: "(real_of_int \<bar>gameDate - game_date g\<bar> < 3600000)
                = (\<bar>gameDate - game_date g\<bar> < 3600000)"
    by linarith
  show ?thesis
    unfolding checkDoubleBooking_iff using assms same less by auto
qed

text \<open>
  The amended C2 at a concrete input: a candidate without coordinates 90
  minutes after \<open>g1\<close>, and a candidate on the field of \<open>g1\<close> 30 minutes
  after it.
\<close>

theorem C2_conflict_within_two_hours_witness:
  "example_assigned_game \<in> set [example_assigned_game] \<and>
   \<bar>5400000 - game_date example_assigned_game\<bar> < twoHours \<and>
   \<not> truthy None \<and>
   checkDoubleBooking [example_assigned_game] 5400000 None None \<and>
   \<bar>1800000 - game_date example_assigned_game\<bar> < twoHours \<and>
   truthy (Some 1) \<and>
   latitude example_assigned_game = Some 1 \<and> longitude example_assigned_game = Some 1 \<and>
   \<bar>1800000 - game_date example_assigned_game\<bar> < 3600000 \<and>
   checkDoubleBooking [example_assigned_game] 1800000 (Some 1) (Some 1)"
  using C2_conflict_within_two_hours [where g = example_assigned_game
          and myGames = "[example_assigned_game]" and gameDate = 5400000
          and gameLat = None and gameLng = None]
        C2_conflict_within_two_hours [where g = example_assigned_game
          and myGames = "[example_assigned_game]" and gameDate = 1800000
          and gameLat = "Some 1" and gameLng = "Some 1"]
  by (simp add: twoHours_def example_assigned_game_def del: checkDoubleBooking.simps)

subsection \<open>Claim C8\<close>

text \<open>
  C8: for a provider with one existing assigned game \<open>g\<close> at time \<open>T\<close> and
  location \<open>(lat1, lng1)\<close>, a candidate game at \<open>T\<close> + 3h at a location
  \<open>(lat2, lng2)\<close> 30 miles away does not conflict, and a candidate game at
  \<open>T\<close> + 1h30m at the same location does: the travel time of 60 minutes
  plus the buffer of 60 minutes is a required gap of 120 minutes.
\<close>

theorem C8_travel_time_example:
  assumes "calculateDistance lat2 lng2 lat1 lng1 = 30"
    and "game_date g = T" and "latitude g = Some lat1" and "longitude g = Some lng1"
  shows "\<not> checkDoubleBooking [g] (T + 3 * 60 * 60 * 1000) (Some lat2) (Some lng2) \<and>
         checkDoubleBooking [g] (T + 90 * 60 * 1000) (Some lat2) (Some lng2) \<and>
         requiredBuffer lat2 lng2 g = 120 * 60 * 1000"
  using assms by (simp add: twoHours_def requiredBuffer_def Let_def)

text \<open>
  C8 at a concrete input: the existing game lies 30 miles to the north of
  the candidate, on the same meridian.
\<close>

theorem C8_travel_time_example_witness:
  "calculateDistance 1 1 (1 + 5400 / (3959 * pi)) 1 = 30 \<and>
   \<not> checkDoubleBooking
      [example_assigned_game\<lparr>game_date := 1000, latitude := Some (1 + 5400 / (3959 * pi))\<rparr>]
      (1000 + 3 * 60 * 60 * 1000) (Some 1) (Some 1) \<and>
   checkDoubleBooking
      [example_assigned_game\<lparr>game_date := 1000, latitude := Some (1 + 5400 / (3959 * pi))\<rparr>]
      (1000 + 90 * 60 * 1000) (Some 1) (Some 1)"
  using C8_travel_time_example [OF calculateDistance_thirty_miles, of
      "example_assigned_game\<lparr>game_date := 1000, latitude := Some (1 + 5400 / (3959 * pi))\<rparr>"
      1000]
    calculateDistance_thirty_miles
  by (simp add: example_assigned_game_def del: checkDoubleBooking.simps)

subsection \<open>Claim C10\<close>

text \<open>
  C10: a latitude or longitude that equals exactly 0, on the game or on the
  provider's home, is treated as absent. The distance filter of the open
  games keeps such a game whatever the maximum distance is (and keeps every
  game when the home coordinate is 0), and the conflict check of such a pair
  of candidate and existing game is the time rule alone: conflict exactly
  when the instants differ by less than two hours.
\<close>

theorem C10_zero_coordinates_absent:
  assumes "g \<in> set availableGames"
  shows "(userLat = Some 0 \<or> userLng = Some 0 \<or> latitude g = Some 0 \<or> longitude g = Some 0
            \<longrightarrow> g \<in> set (filteredGames userLat userLng maxDistance availableGames)) \<and>
         (userLat = Some 0 \<or> userLng = Some 0
            \<longrightarrow> filteredGames userLat userLng maxDistance availableGames = availableGames) \<and>
         (gameLat = Some 0 \<or> gameLng = Some 0 \<or> latitude g = Some 0 \<or> longitude g = Some 0
            \<longrightarrow> (checkDoubleBooking [g] gameDate gameLat gameLng
                    \<longleftrightarrow> \<bar>gameDate - game_date g\<bar> < twoHours) \<and>
                 (\<bar>gameDate - game_date g\<bar> < twoHours
                    \<longrightarrow> checkDoubleBooking availableGames gameDate gameLat gameLng))"
  unfolding checkDoubleBooking_iff using assms
  by (auto simp: filteredGames_def)

text \<open>
  C10 at a concrete input: an open game on the equator (latitude 0) is kept
  under a cap of one mile for a home far away, every game is kept for a home
  with longitude 0, and a candidate at longitude 0 conflicts with a game that
  is 50 minutes away.
\<close>

theorem C10_zero_coordinates_absent_witness:
  "example_pending_game\<lparr>latitude := Some 0, longitude := Some 5\<rparr>
     \<in> set [example_pending_game\<lparr>latitude := Some 0, longitude := Some 5\<rparr>] \<and>
   latitude (example_pending_game\<lparr>latitude := Some 0, longitude := Some 5\<rparr>) = Some 0 \<and>
   example_pending_game\<lparr>latitude := Some 0, longitude := Some 5\<rparr>
     \<in> set (filteredGames (Some 40) (Some (-75)) 1
              [example_pending_game\<lparr>latitude := Some 0, longitude := Some 5\<rparr>]) \<and>
   example_assigned_game \<in> set [example_assigned_game] \<and>
   filteredGames (Some 40) (Some 0) 1 [example_assigned_game] = [example_assigned_game] \<and>
   \<bar>3000000 - game_date example_assigned_game\<bar> < twoHours \<and>
   checkDoubleBooking [example_assigned_game] 3000000 (Some 1) (Some 0)"
  using C10_zero_coordinates_absent
          [where g = "example_pending_game\<lparr>latitude := Some 0, longitude := Some 5\<rparr>"
             and availableGames = "[example_pending_game\<lparr>latitude := Some 0, longitude := Some 5\<rparr>]"
             and userLat = "Some 40" and userLng = "Some (-75)" and maxDistance = 1
             and gameLat = "Some 3" and gameLng = "Some 4" and gameDate = 60]
        C10_zero_coordinates_absent
          [where g = example_assigned_game and availableGames = "[example_assigned_game]"
             and userLat = "Some 40" and userLng = "Some 0" and maxDistance = 1
             and gameLat = "Some 1" and gameLng = "Some 0" and gameDate = 3000000]
  by (simp add: twoHours_def example_defs del: checkDoubleBooking.simps)

section \<open>Properties of the store and of the game lifecycle\<close>

subsection \<open>What the statements of the store keep\<close>

lemma update_games_list_all:
  assumes "update_games db uid gid f = Inr db'"
    and "list_all P (games db)"
    and "\<And>g. g \<in> set (games db) \<Longrightarrow> id g = gid \<Longrightarrow> P g \<Longrightarrow> P (f g)"
  shows "list_all P (games db')"
  using assms
  by (auto simp: update_games_def Let_def list_all_iff split: if_splits)

lemma insert_games_list_all:
  assumes "insert_games db uid g = Inr db'" and "list_all P (games db)" and "P g"
  shows "list_all P (games db')"
  using assms by (auto simp: insert_games_def split: if_splits)

lemma insert_umpire_requests_games:
  "insert_umpire_requests db uid r = Inr db' \<Longrightarrow> games db' = games db"
  by (auto simp: insert_umpire_requests_def split: if_splits)

lemma insert_ratings_games:
  "insert_ratings db uid new_id now a b c e f = Inr db' \<Longrightarrow> games db' = games db"
  by (auto simp: insert_ratings_def split: if_splits option.splits)

lemma insert_external_umpire_leads_games:
  "insert_external_umpire_leads db uid l = Inr db' \<Longrightarrow> games db' = games db"
  by (auto simp: insert_external_umpire_leads_def split: if_splits)

lemma insert_pending_invariant:
  assumes "insert_games db uid \<lparr>id = a, coach_id = b, game_date = c, location = e, opponent = f,
      status = pending, assigned_umpire_id = None, latitude = la, longitude = lo\<rparr> = Inr db'"
    and "list_all provider_invariant (games db)"
  shows "list_all provider_invariant (games db')"
  using assms(1) assms(2)
  by (rule insert_games_list_all) (simp add: provider_invariant_def)

lemma create_coach_invariant:
  assumes "store_invariant db"
  shows "store_invariant (snd (RequestUmpireDialog_handleSubmit rt db user date time' opp loc gid rid))"
  using assms
  by (auto simp: RequestUmpireDialog_handleSubmit_def store_invariant_def
           split: option.splits sum.splits
           dest!: insert_umpire_requests_games
           intro: insert_pending_invariant)

lemma create_staff_invariant:
  assumes "store_invariant db"
  shows "store_invariant (snd (CreateGameRequestDialog_handleSubmit rt db uid sel date time' opp loc gid rid))"
  using assms
  by (auto simp: CreateGameRequestDialog_handleSubmit_def store_invariant_def
           split: option.splits sum.splits
           dest!: insert_umpire_requests_games
           intro: insert_pending_invariant)

lemma BulkUpload_loop_invariant:
  assumes "store_invariant (fst st)"
  shows "store_invariant (fst (BulkUpload_loop rt uid sel ids i vs st))"
  using assms
proof (induction vs arbitrary: i st)
  case Nil
  then show ?case by simp
next
  case (Cons v vs)
  obtain db sc ec where st: "st = (db, sc, ec)" by (cases st) auto
  show ?case
    unfolding st BulkUpload_loop.simps
    apply (rule Cons.IH)
    using Cons.prems unfolding st
    by (auto simp: store_invariant_def split: option.splits sum.splits
           dest!: insert_umpire_requests_games
           intro: insert_pending_invariant)
qed

lemma bulk_invariant:
  assumes "store_invariant db"
  shows "store_invariant (snd (BulkUpload_handleSubmit rt db uid sel parsedGames ids))"
proof -
  have "store_invariant (fst (BulkUpload_loop rt uid sel ids 0 (filter parsed_valid parsedGames) (db, 0, 0)))"
    by (rule BulkUpload_loop_invariant) (simp add: assms)
  then show ?thesis using assms
    by (auto simp: BulkUpload_handleSubmit_def Let_def split: prod.splits)
qed

lemma accept_invariant:
  assumes "store_invariant db"
  shows "store_invariant (snd (handleAcceptGame db user myGames gameId gameDate gameLat gameLng))"
proof -
  have "store_invariant db1" if "update_games db uid gameId
                    (\<lambda>g. g\<lparr>assigned_umpire_id := Some uid, status := assigned\<rparr>) = Inr db1" for uid db1
    using that assms unfolding store_invariant_def
    by (rule update_games_list_all) (simp add: provider_invariant_def)
  then show ?thesis using assms
    by (auto simp: handleAcceptGame_def store_invariant_def update_umpire_requests_def Let_def
        split: option.splits sum.splits)
qed

lemma same_id_same_game:
  assumes "distinct (map id (games db))" "g \<in> set (games db)" "g' \<in> set (games db)" "id g' = id g"
  shows "g' = g"
  using assms by (auto simp: distinct_map inj_on_def)

lemma confirm_invariant:
  assumes inv: "store_invariant db"
    and g: "g \<in> set (games db)" "assigned_umpire_id g \<noteq> None"
    and d: "distinct (map id (games db))"
  shows "store_invariant (snd (handleConfirmAndRate db user (Some g) noShow rating' comment' new_id now))"
proof -
  have "list_all provider_invariant (games db1)"
    if "update_games db uid (id g) (\<lambda>r. r\<lparr>status := completed\<rparr>) = Inr db1" for uid db1
    using that inv [unfolded store_invariant_def]
  proof (rule update_games_list_all)
    fix g' assume "g' \<in> set (games db)" "id g' = id g"
    then have "g' = g" using d g(1) by (metis same_id_same_game)
    then show "provider_invariant (g'\<lparr>status := completed\<rparr>)"
      using g(2) by (simp add: provider_invariant_def)
  qed
  then show ?thesis using inv
    by (auto simp: handleConfirmAndRate_def store_invariant_def Let_def
        split: option.splits sum.splits dest!: insert_ratings_games)
qed

lemma cancel_invariant:
  assumes inv: "store_invariant db"
    and g: "g \<in> set (games db)" "assigned_umpire_id g = None"
    and d: "distinct (map id (games db))"
    and c: "gameCompleted \<noteq> Some True"
  shows "store_invariant (snd (PastPendingGamesDialog_handleSubmit db user (Some g) gameCompleted
           umpireName umpireContact howFound notes' new_id))"
proof -
  have "list_all provider_invariant (games db1)"
    if "update_games db uid (id g) (\<lambda>r. r\<lparr>status := cancelled\<rparr>) = Inr db1" for uid db1
    using that inv [unfolded store_invariant_def]
  proof (rule update_games_list_all)
    fix g' assume "g' \<in> set (games db)" "id g' = id g"
    then have "g' = g" using d g(1) by (metis same_id_same_game)
    then show "provider_invariant (g'\<lparr>status := cancelled\<rparr>)"
      using g(2) by (simp add: provider_invariant_def)
  qed
  then show ?thesis using inv c
    by (auto simp: PastPendingGamesDialog_handleSubmit_def store_invariant_def Let_def
        split: option.splits sum.splits)
qed

lemma invariant_half: "provider_invariant g \<Longrightarrow> provider_only_if_assigned g"
  by (auto simp: provider_invariant_def provider_only_if_assigned_def)

lemma external_half_invariant:
  assumes inv: "store_invariant db"
  shows "list_all provider_only_if_assigned
           (games (snd (PastPendingGamesDialog_handleSubmit db user currentGame (Some True)
              umpireName umpireContact howFound notes' new_id)))"
proof -
  have base: "list_all provider_only_if_assigned (games db)"
    using inv by (auto simp: store_invariant_def list_all_iff intro: invariant_half)
  have "list_all provider_only_if_assigned (games db2)"
    if "insert_external_umpire_leads db uid l = Inr db1"
       "update_games db1 uid gid (\<lambda>r. r\<lparr>status := completed\<rparr>) = Inr db2" for uid l db1 db2 gid
  proof -
    have "list_all provider_only_if_assigned (games db1)"
      using base insert_external_umpire_leads_games [OF that(1)] by simp
    with that(2) show ?thesis
      by (rule update_games_list_all) (simp add: provider_only_if_assigned_def)
  qed
  then show ?thesis using base
    by (auto simp: PastPendingGamesDialog_handleSubmit_def
        split: option.splits sum.splits dest!: insert_external_umpire_leads_games)
qed

lemma checkPastGames_member:
  "g \<in> set (checkPastGames db uid now) \<Longrightarrow> g \<in> set (games db) \<and> assigned_umpire_id g \<noteq> None"
  by (auto simp: checkPastGames_def)

lemma example_store_invariant: "store_invariant example_store"
  by (simp add: example_defs store_invariant_def provider_invariant_def)

lemma example_store_distinct: "distinct (map id (games example_store))"
  by (simp add: example_defs)

lemma example_checkPastGames:
  "checkPastGames example_store ''c1'' 7200000 = [example_assigned_game]"
  by (simp add: example_defs checkPastGames_def)

lemma update_own_game:
  assumes g: "g \<in> set (games db)" "coach_id g = uid" and d: "distinct (map id (games db))"
  shows "update_games db uid (id g) (\<lambda>r. r\<lparr>status := s\<rparr>)
           = Inr (db\<lparr>games := map (\<lambda>r. if id r = id g then r\<lparr>status := s\<rparr> else r) (games db)\<rparr>)"
proof -
  have same: "g' = g" if "g' \<in> set (games db)" "id g' = id g" for g'
    using that d g(1) by (metis same_id_same_game)
  have hit: "(id g' = id g \<and> games_update_using db uid g') = (id g' = id g)"
    if "g' \<in> set (games db)" for g'
    using same [OF that] g(2) by (auto simp: games_update_using_def)
  have chk: "games_update_check db uid (g'\<lparr>status := s\<rparr>)"
    if "g' \<in> set (games db)" "id g' = id g" for g'
    using same [OF that] g(2) by (auto simp: games_update_check_def)
  have "map (\<lambda>r. if id r = id g \<and> games_update_using db uid r then r\<lparr>status := s\<rparr> else r) (games db)
        = map (\<lambda>r. if id r = id g then r\<lparr>status := s\<rparr> else r) (games db)"
    using hit by (intro map_cong) auto
  then show ?thesis
    using chk by (auto simp: update_games_def Let_def list_ex_iff)
qed

subsection \<open>Claim C1\<close>

text \<open>
  C1 as the specification states it fails on the external-resolution branch:
  the coach \<open>c1\<close> records that the game \<open>g2\<close>, which nobody accepted, was
  played with an outside umpire. The handler stores the lead and sets the
  status to \<open>completed\<close>; the assigned provider stays unset.
\<close>

theorem C1_external_resolution_counterexample:
  "store_invariant example_store \<and>
   \<not> store_invariant (snd (PastPendingGamesDialog_handleSubmit example_store (Some ''c1'')
        (Some example_pending_game) (Some True) ''Pat Blue'' '''' ''referral'' '''' ''l1''))"
  by (simp add: example_defs store_invariant_def provider_invariant_def
      PastPendingGamesDialog_handleSubmit_def insert_external_umpire_leads_def
      external_umpire_leads_insert_check_def update_games_def games_update_using_def
      games_update_check_def has_role_def Let_def)

text \<open>
  C1, amended: in a store whose games satisfy the invariant (provider set if
  and only if the status is \<open>assigned\<close> or \<open>completed\<close>), the invariant
  is preserved by create (by the coach, by staff and by the bulk import), by
  accept, by the confirm branch on a game of \<open>checkPastGames\<close> (assigned and
  lapsed) and by the not-played branch on a game without a provider. The
  external-resolution branch completes a never-assigned game without setting
  a provider; what it preserves is that a provider is set only on a game that
  is \<open>assigned\<close> or \<open>completed\<close>.
\<close>

theorem C1_provider_invariant_preserved:
  assumes "store_invariant db" and "distinct (map id (games db))"
  shows "store_invariant (snd (RequestUmpireDialog_handleSubmit rt db user date' time' opp loc gid rid)) \<and>
         store_invariant (snd (CreateGameRequestDialog_handleSubmit rt db uid sel date' time' opp loc gid rid)) \<and>
         store_invariant (snd (BulkUpload_handleSubmit rt db uid sel parsedGames ids)) \<and>
         store_invariant (snd (handleAcceptGame db user myGames gameId gameDate gameLat gameLng)) \<and>
         (g \<in> set (checkPastGames db owner opened) \<longrightarrow>
            store_invariant (snd (handleConfirmAndRate db user (Some g) noShow rating' comment' new_id now))) \<and>
         (g \<in> set (games db) \<and> assigned_umpire_id g = None \<and> gameCompleted \<noteq> Some True \<longrightarrow>
            store_invariant (snd (PastPendingGamesDialog_handleSubmit db user (Some g) gameCompleted
               umpireName umpireContact howFound notes' new_id))) \<and>
         list_all provider_only_if_assigned
           (games (snd (PastPendingGamesDialog_handleSubmit db user currentGame (Some True)
              umpireName umpireContact howFound notes' new_id)))"
  using assms create_coach_invariant create_staff_invariant bulk_invariant accept_invariant
    confirm_invariant cancel_invariant external_half_invariant checkPastGames_member
  by metis

text \<open>
  The amended C1 on the example store: the coach confirms the lapsed game
  \<open>g1\<close> with four stars, declares the game \<open>g2\<close> not played, and the
  umpire \<open>u2\<close> accepts \<open>g2\<close>.
\<close>

theorem C1_provider_invariant_preserved_witness:
  "store_invariant example_store \<and> distinct (map id (games example_store)) \<and>
   example_assigned_game \<in> set (checkPastGames example_store ''c1'' 7200000) \<and>
   store_invariant (snd (handleConfirmAndRate example_store (Some ''c1'')
      (Some example_assigned_game) False 4 [] ''r1'' 7200000)) \<and>
   example_pending_game \<in> set (games example_store) \<and>
   assigned_umpire_id example_pending_game = None \<and>
   store_invariant (snd (PastPendingGamesDialog_handleSubmit example_store (Some ''c1'')
      (Some example_pending_game) (Some False) [] [] [] [] ''l1'')) \<and>
   store_invariant (snd (handleAcceptGame example_store (Some ''u2'') [] ''g2'' 50 None None))"
proof -
  have m: "example_assigned_game \<in> set (checkPastGames example_store ''c1'' 7200000)"
    by (simp add: example_checkPastGames)
  have p: "example_pending_game \<in> set (games example_store)"
    "assigned_umpire_id example_pending_game = None"
    by (simp_all add: example_defs)
  show ?thesis
    using C1_provider_invariant_preserved [OF example_store_invariant example_store_distinct,
        where g = example_assigned_game and owner = "''c1''" and opened = 7200000
          and user = "Some ''c1''" and noShow = False and rating' = 4 and comment' = "[]"
          and new_id = "''r1''" and now = 7200000]
      C1_provider_invariant_preserved [OF example_store_invariant example_store_distinct,
        where g = example_pending_game and user = "Some ''c1''" and gameCompleted = "Some False"
          and umpireName = "[]" and umpireContact = "[]" and howFound = "[]" and notes' = "[]"
          and new_id = "''l1''"]
      C1_provider_invariant_preserved [OF example_store_invariant example_store_distinct,
        where user = "Some ''u2''" and myGames = "[]" and gameId = "''g2''" and gameDate = 50
          and gameLat = None and gameLng = None]
      m p example_store_invariant example_store_distinct
    by simp
qed

subsection \<open>Claim C3\<close>

text \<open>
  C3: a no-show Rating with score 0 for a completed game should be stored.
  On the code it is not: the coach \<open>c1\<close> confirms the lapsed game \<open>g1\<close>
  with the no-show box ticked; the handler completes the game and sends the
  rating 0, and the store refuses it with a check violation
  (\<^verbatim>\<open>CHECK (rating >= 1 AND rating <= 5)\<close>). The handler reports a failure
  and no rating is stored.
\<close>

theorem C3_no_show_rating_rejected:
  "handleConfirmAndRate example_store (Some ''c1'') (Some example_assigned_game) True 0 [] ''r1'' 7200000
     = (toast_error ''Failed to confirm game. Please try again.'',
        example_store\<lparr>games := [example_assigned_game\<lparr>status := completed\<rparr>, example_pending_game]\<rparr>)
   \<and> insert_ratings
        (example_store\<lparr>games := [example_assigned_game\<lparr>status := completed\<rparr>, example_pending_game]\<rparr>)
        ''c1'' ''r1'' 7200000 ''g1'' ''c1'' (Some ''u1'') 0 None = Inl check_violation"
  by (simp add: example_defs handleConfirmAndRate_def
      update_games_def games_update_using_def insert_ratings_def ratings_insert_check_def rating_check_def
      games_update_check_def has_role_def Let_def or_null_def)

subsection \<open>Claim C4\<close>

text \<open>
  C4 as the specification states it fails: the handler writes the game first
  and the rating second. In the no-show confirmation of \<open>g1\<close> the rating is
  refused, for another reason than a duplicate, and the status of the game
  has changed from \<open>assigned\<close> to \<open>completed\<close> all the same.
\<close>

theorem C4_rating_failure_counterexample:
  "map status (games example_store) = [assigned, pending] \<and>
   fst (handleConfirmAndRate example_store (Some ''c1'') (Some example_assigned_game)
          True 0 [] ''r1'' 7200000)
     = toast_error ''Failed to confirm game. Please try again.'' \<and>
   ratings (snd (handleConfirmAndRate example_store (Some ''c1'') (Some example_assigned_game)
          True 0 [] ''r1'' 7200000)) = [] \<and>
   map status (games (snd (handleConfirmAndRate example_store (Some ''c1'')
          (Some example_assigned_game) True 0 [] ''r1'' 7200000))) = [completed, pending]"
  by (simp add: example_defs handleConfirmAndRate_def
      update_games_def games_update_using_def insert_ratings_def ratings_insert_check_def rating_check_def
      games_update_check_def has_role_def Let_def or_null_def)

text \<open>
  C4, amended: each confirm outcome first marks the game completed and then
  submits the Rating, against the completed game. If marking the game fails,
  no Rating is submitted and the store is unchanged. For the owning coach the
  game is completed whatever becomes of the Rating: a new Rating with a score
  from 1 to 5 is stored, a duplicate is swallowed and reported as a success,
  and a Rating that the store refuses for another reason is reported as a
  failure and leaves the Ratings as they were.
\<close>

theorem C4_completed_before_rating:
  assumes "noShow \<or> rating' \<noteq> 0"
  shows "(isl (update_games db uid (id g) (\<lambda>r. r\<lparr>status := completed\<rparr>)) \<longrightarrow>
            handleConfirmAndRate db (Some uid) (Some g) noShow rating' comment' new_id now
              = (toast_error ''Failed to confirm game. Please try again.'', db)) \<and>
         (g \<in> set (games db) \<and> coach_id g = uid \<and> distinct (map id (games db)) \<and>
          new_id \<notin> set (map rating_id (ratings db)) \<longrightarrow>
            games (snd (handleConfirmAndRate db (Some uid) (Some g) noShow rating' comment' new_id now))
              = map (\<lambda>r. if id r = id g then r\<lparr>status := completed\<rparr> else r) (games db) \<and>
            (rating_check (if noShow then 0 else rating') \<and> assigned_umpire_id g \<noteq> None \<and>
             \<not> list_ex (\<lambda>r. rating_game_id r = id g \<and> rating_coach_id r = uid) (ratings db) \<longrightarrow>
               fst (handleConfirmAndRate db (Some uid) (Some g) noShow rating' comment' new_id now)
                 = toast_success ''Game confirmed and rating submitted!'' \<and>
               ratings (snd (handleConfirmAndRate db (Some uid) (Some g) noShow rating' comment' new_id now))
                 = ratings db @
                   [\<lparr>rating_id = new_id, rating_game_id = id g, rating_coach_id = uid,
                     umpire_id = the (assigned_umpire_id g),
                     rating = (if noShow then 0 else rating'), comment = or_null comment',
                     created_at = now\<rparr>]) \<and>
            (rating_check (if noShow then 0 else rating') \<and> assigned_umpire_id g \<noteq> None \<and>
             list_ex (\<lambda>r. rating_game_id r = id g \<and> rating_coach_id r = uid) (ratings db) \<longrightarrow>
               fst (handleConfirmAndRate db (Some uid) (Some g) noShow rating' comment' new_id now)
                 = toast_success ''Game confirmed and rating submitted!'' \<and>
               ratings (snd (handleConfirmAndRate db (Some uid) (Some g) noShow rating' comment' new_id now))
                 = ratings db) \<and>
            (\<not> rating_check (if noShow then 0 else rating') \<or> assigned_umpire_id g = None \<longrightarrow>
               fst (handleConfirmAndRate db (Some uid) (Some g) noShow rating' comment' new_id now)
                 = toast_error ''Failed to confirm game. Please try again.'' \<and>
               ratings (snd (handleConfirmAndRate db (Some uid) (Some g) noShow rating' comment' new_id now))
                 = ratings db))"
proof (intro conjI impI)
  assume "isl (update_games db uid (id g) (\<lambda>r. r\<lparr>status := completed\<rparr>))"
  then show "handleConfirmAndRate db (Some uid) (Some g) noShow rating' comment' new_id now
              = (toast_error ''Failed to confirm game. Please try again.'', db)"
    using assms by (auto simp: handleConfirmAndRate_def Let_def isl_def)
next
  assume own: "g \<in> set (games db) \<and> coach_id g = uid \<and> distinct (map id (games db)) \<and>
          new_id \<notin> set (map rating_id (ratings db))"
  define db1 where "db1 = db\<lparr>games := map (\<lambda>r. if id r = id g then r\<lparr>status := completed\<rparr> else r) (games db)\<rparr>"
  have upd: "update_games db uid (id g) (\<lambda>r. r\<lparr>status := completed\<rparr>) = Inr db1"
    unfolding db1_def using own by (intro update_own_game) auto
  have "g\<lparr>status := completed\<rparr> \<in> set (games db1)"
    using own by (auto simp: db1_def image_iff intro!: bexI [of _ g])
  then have rls: "ratings_insert_check db1 uid uid (id g)"
    using own by (auto simp: ratings_insert_check_def list_ex_iff intro!: bexI [of _ "g\<lparr>status := completed\<rparr>"])
  have r1: "ratings db1 = ratings db" by (simp add: db1_def)
  have fresh: "\<not> list_ex (\<lambda>r. rating_id r = new_id) (ratings db)"
    using own by (auto simp: list_ex_iff)
  show "games (snd (handleConfirmAndRate db (Some uid) (Some g) noShow rating' comment' new_id now))
              = map (\<lambda>r. if id r = id g then r\<lparr>status := completed\<rparr> else r) (games db)"
    using assms upd
    by (auto simp: handleConfirmAndRate_def Let_def db1_def split: sum.splits
          dest!: insert_ratings_games)
  {
    assume a: "rating_check (if noShow then 0 else rating') \<and> assigned_umpire_id g \<noteq> None \<and>
             \<not> list_ex (\<lambda>r. rating_game_id r = id g \<and> rating_coach_id r = uid) (ratings db)"
    then obtain u where u: "assigned_umpire_id g = Some u" by auto
    have ins: "insert_ratings db1 uid new_id now (id g) uid (Some u) (if noShow then 0 else rating') (or_null comment')
       = Inr (db1\<lparr>ratings := ratings db @
                   [\<lparr>rating_id = new_id, rating_game_id = id g, rating_coach_id = uid,
                     umpire_id = u,
                     rating = (if noShow then 0 else rating'), comment = or_null comment',
                     created_at = now\<rparr>]\<rparr>)"
      using a rls fresh r1 by (auto simp: insert_ratings_def list_ex_iff)
    show "fst (handleConfirmAndRate db (Some uid) (Some g) noShow rating' comment' new_id now)
                 = toast_success ''Game confirmed and rating submitted!''"
      using assms upd ins u by (auto simp: handleConfirmAndRate_def Let_def)
    show "ratings (snd (handleConfirmAndRate db (Some uid) (Some g) noShow rating' comment' new_id now))
                 = ratings db @
                   [\<lparr>rating_id = new_id, rating_game_id = id g, rating_coach_id = uid,
                     umpire_id = the (assigned_umpire_id g),
                     rating = (if noShow then 0 else rating'), comment = or_null comment',
                     created_at = now\<rparr>]"
      using assms upd ins u by (auto simp: handleConfirmAndRate_def Let_def)
  }
  {
    assume a: "rating_check (if noShow then 0 else rating') \<and> assigned_umpire_id g \<noteq> None \<and>
             list_ex (\<lambda>r. rating_game_id r = id g \<and> rating_coach_id r = uid) (ratings db)"
    then obtain u where u: "assigned_umpire_id g = Some u" by auto
    have ins: "insert_ratings db1 uid new_id now (id g) uid (Some u) (if noShow then 0 else rating') (or_null comment')
       = Inl unique_violation"
      using a rls r1 by (auto simp: insert_ratings_def list_ex_iff)
    show "fst (handleConfirmAndRate db (Some uid) (Some g) noShow rating' comment' new_id now)
                 = toast_success ''Game confirmed and rating submitted!''"
      using assms upd ins u by (auto simp: handleConfirmAndRate_def Let_def)
    show "ratings (snd (handleConfirmAndRate db (Some uid) (Some g) noShow rating' comment' new_id now))
                 = ratings db"
      using assms upd ins u r1 by (auto simp: handleConfirmAndRate_def Let_def)
  }
  {
    assume a: "\<not> rating_check (if noShow then 0 else rating') \<or> assigned_umpire_id g = None"
    have ins: "insert_ratings db1 uid new_id now (id g) uid (assigned_umpire_id g) (if noShow then 0 else rating') (or_null comment')
       = Inl check_violation \<or> insert_ratings db1 uid new_id now (id g) uid (assigned_umpire_id g) (if noShow then 0 else rating') (or_null comment')
       = Inl not_null_violation"
      using a rls by (auto simp: insert_ratings_def split: option.splits if_splits)
    show "fst (handleConfirmAndRate db (Some uid) (Some g) noShow rating' comment' new_id now)
                 = toast_error ''Failed to confirm game. Please try again.''"
      using assms upd ins by (auto simp: handleConfirmAndRate_def Let_def)
    show "ratings (snd (handleConfirmAndRate db (Some uid) (Some g) noShow rating' comment' new_id now))
                 = ratings db"
      using assms upd ins r1 by (auto simp: handleConfirmAndRate_def Let_def)
  }
qed

text \<open>
  The amended C4 on the example store: the umpire \<open>u2\<close> may not complete
  the open game \<open>g2\<close>, so nothing is written; the coach \<open>c1\<close> confirms
  \<open>g1\<close> with four stars.
\<close>

theorem C4_completed_before_rating_witness:
  "isl (update_games example_store ''u2'' (id example_pending_game) (\<lambda>r. r\<lparr>status := completed\<rparr>)) \<and>
   handleConfirmAndRate example_store (Some ''u2'') (Some example_pending_game) True 0 [] ''r1'' 7200000
     = (toast_error ''Failed to confirm game. Please try again.'', example_store) \<and>
   example_assigned_game \<in> set (games example_store) \<and>
   coach_id example_assigned_game = ''c1'' \<and>
   rating_check 4 \<and>
   fst (handleConfirmAndRate example_store (Some ''c1'') (Some example_assigned_game)
          False 4 [] ''r1'' 7200000)
     = toast_success ''Game confirmed and rating submitted!'' \<and>
   map status (games (snd (handleConfirmAndRate example_store (Some ''c1'')
          (Some example_assigned_game) False 4 [] ''r1'' 7200000))) = [completed, pending]"
proof -
  have a: "isl (update_games example_store ''u2'' (id example_pending_game) (\<lambda>r. r\<lparr>status := completed\<rparr>))"
    by (simp add: example_defs update_games_def games_update_using_def games_update_check_def
        has_role_def Let_def)
  have b: "example_assigned_game \<in> set (games example_store)"
    "coach_id example_assigned_game = ''c1''"
    "distinct (map id (games example_store))"
    "''r1'' \<notin> set (map rating_id (ratings example_store))"
    "rating_check 4" "assigned_umpire_id example_assigned_game \<noteq> None"
    "\<not> list_ex (\<lambda>r. rating_game_id r = id example_assigned_game \<and> rating_coach_id r = ''c1'')
         (ratings example_store)"
    by (simp_all add: example_defs rating_check_def)
  have c: "map status (map (\<lambda>r. if id r = id example_assigned_game then r\<lparr>status := completed\<rparr> else r)
       (games example_store)) = [completed, pending]"
    by (simp add: example_defs)
  show ?thesis
    using C4_completed_before_rating [where noShow = True and rating' = 0 and db = example_store
        and uid = "''u2''" and g = example_pending_game and comment' = "[]" and new_id = "''r1''"
        and now = 7200000]
      C4_completed_before_rating [where noShow = False and rating' = 4 and db = example_store
        and uid = "''c1''" and g = example_assigned_game and comment' = "[]" and new_id = "''r1''"
        and now = 7200000]
      a b c
    by simp
qed

subsection \<open>Claim C5\<close>

text \<open>
  C5: an accept of a game that is already assigned should fail and should not
  be reported as a success. On the code the game row is left unchanged, since
  no policy admits the row for the update, but the statement raises no error
  and the handler shows its success toast: the umpire \<open>u2\<close>, with no games
  of their own, accepts the game \<open>g1\<close> that \<open>u1\<close> holds.
\<close>

theorem C5_accept_assigned_reported_success:
  "handleAcceptGame example_store (Some ''u2'') [] ''g1'' 0 (Some 1) (Some 1)
     = (toast_success ''Game accepted successfully!'', example_store)"
  by (simp add: example_defs handleAcceptGame_def update_umpire_requests_def
      update_games_def games_update_using_def
      games_update_check_def has_role_def Let_def)

section \<open>Properties of the rating ledger\<close>

lemma canEditRating_iff:
  "canEditRating now r \<longleftrightarrow> now - created_at r < 24 * 60 * 60 * 1000"
  by (auto simp: canEditRating_def differenceInHours_def Let_def)

lemma handleSubmit_edit_result:
  "RateUmpireDialog_handleSubmit_edit db user g (Some r) noShow rating' comment' new_id now
     = (if user = None \<or> \<not> truthy_string (assigned_umpire_id g) \<or> (\<not> noShow \<and> rating' = 0)
        then no_toast else toast_success ''Rating updated successfully!'', db)"
  by (auto simp: RateUmpireDialog_handleSubmit_edit_def update_ratings_def ratings_update_using_def
      Let_def list_ex_iff split: option.splits)

subsection \<open>Claim C6\<close>

text \<open>
  C6 as the specification states it fails: an update that the dialog submits
  24 hours and 1 minute after the creation of the rating is reported as a
  success, not as a failure. The handler of the dialog does not read the
  clock.
\<close>

theorem C6_update_after_window_counterexample:
  "(created_at example_rating + (24 * 60 + 1) * 60 * 1000) - created_at example_rating
      = (24 * 60 + 1) * 60 * 1000 \<and>
   RateUmpireDialog_handleSubmit_edit example_rated_store (Some ''c1'')
      (example_assigned_game\<lparr>status := completed\<rparr>) (Some example_rating) False 5 [] ''r2''
      (created_at example_rating + (24 * 60 + 1) * 60 * 1000)
     = (toast_success ''Rating updated successfully!'', example_rated_store)"
  by (simp add: example_defs RateUmpireDialog_handleSubmit_edit_def update_ratings_def
      ratings_update_using_def Let_def)

text \<open>
  C6, amended: for every Rating, \<open>canEditRating\<close>, which decides whether the
  dashboard offers the edit of the rating, holds 23 hours 59 minutes after the
  creation and fails 24 hours 1 minute after it; it holds exactly when less
  than 24 hours have passed. The update handler itself does not depend on the
  time of the submission and never reports a failure for an expired window.
\<close>

theorem C6_edit_window_gate:
  "canEditRating (created_at r + (23 * 60 + 59) * 60 * 1000) r \<and>
   \<not> canEditRating (created_at r + (24 * 60 + 1) * 60 * 1000) r \<and>
   (canEditRating now r \<longleftrightarrow> now - created_at r < 24 * 60 * 60 * 1000) \<and>
   RateUmpireDialog_handleSubmit_edit db user g (Some r) noShow rating' comment' new_id now
     = RateUmpireDialog_handleSubmit_edit db user g (Some r) noShow rating' comment' new_id later \<and>
   fst (RateUmpireDialog_handleSubmit_edit db user g (Some r) noShow rating' comment' new_id now)
     \<in> {no_toast, toast_success ''Rating updated successfully!''}"
  by (simp add: canEditRating_iff handleSubmit_edit_result)

text \<open>The amended C6 on the example rating.\<close>

theorem C6_edit_window_gate_witness:
  "canEditRating (7200000 + (23 * 60 + 59) * 60 * 1000) example_rating \<and>
   \<not> canEditRating (7200000 + (24 * 60 + 1) * 60 * 1000) example_rating"
  using C6_edit_window_gate [where r = example_rating]
  by (simp add: example_rating_def)

subsection \<open>Claim C7\<close>

lemma insert_ratings_existing_fails:
  assumes "list_ex (\<lambda>r. rating_game_id r = gid \<and> rating_coach_id r = cid) (ratings db)"
  shows "isl (insert_ratings db uid new_id now gid cid um score cm)"
  using assms by (auto simp: insert_ratings_def list_ex_iff split: option.splits)

lemma insert_ratings_unique:
  assumes "insert_ratings db uid new_id now gid cid um score cm = Inr db'"
    and "ratings_unique db"
  shows "ratings_unique db'"
  using assms
  by (auto simp: insert_ratings_def ratings_unique_def list_ex_iff split: option.splits if_splits)

lemma handleSubmit_unique:
  assumes "ratings_unique db"
  shows "ratings_unique (snd (RateUmpireDialog_handleSubmit db user g rating' comment' new_id now))"
  using assms
  by (auto simp: RateUmpireDialog_handleSubmit_def split: option.splits sum.splits
      dest: insert_ratings_unique)

text \<open>
  What the unique constraint gives for a pair of game and requester that
  already has a stored Rating: every insert for the pair is refused and both
  versions of the dialog leave the store as it was; a submit with a score
  from 1 to 5 for an umpire, which row security admits, is refused as a
  duplicate. No insert and no run of the handler breaks the uniqueness.
\<close>

lemma second_rating_refused:
  "(list_ex (\<lambda>r. rating_game_id r = id g \<and> rating_coach_id r = uid) (ratings db) \<longrightarrow>
      isl (insert_ratings db actor new_id now (id g) uid um score cm) \<and>
      snd (RateUmpireDialog_handleSubmit db (Some uid) g rating' comment' new_id now) = db \<and>
      (truthy_string (assigned_umpire_id g) \<and> rating_check rating' \<and>
       ratings_insert_check db uid uid (id g) \<longrightarrow>
         insert_ratings db uid new_id now (id g) uid (assigned_umpire_id g) rating'
           (or_null comment') = Inl unique_violation \<and>
         RateUmpireDialog_handleSubmit db (Some uid) g rating' comment' new_id now
           = (toast_error ''You have already rated this umpire for this game'', db) \<and>
         RateUmpireDialog_handleSubmit_edit db (Some uid) g None False rating' comment' new_id now
           = (toast_error ''You have already rated this umpire for this game'', db)) \<and>
      snd (RateUmpireDialog_handleSubmit_edit db (Some uid) g None noShow rating' comment' new_id now)
        = db) \<and>
   (ratings_unique db \<longrightarrow>
      ratings_unique (snd (RateUmpireDialog_handleSubmit db (Some uid) g rating' comment' new_id now)) \<and>
      (insert_ratings db actor new_id now gid cid um score cm = Inr db' \<longrightarrow> ratings_unique db'))"
proof (intro conjI impI)
  assume ex: "list_ex (\<lambda>r. rating_game_id r = id g \<and> rating_coach_id r = uid) (ratings db)"
  show "isl (insert_ratings db actor new_id now (id g) uid um score cm)"
    using ex by (rule insert_ratings_existing_fails)
  have "isl (insert_ratings db uid new_id now (id g) uid (assigned_umpire_id g) rating' (or_null comment'))"
    using ex by (rule insert_ratings_existing_fails)
  then show "snd (RateUmpireDialog_handleSubmit db (Some uid) g rating' comment' new_id now) = db"
    by (auto simp: RateUmpireDialog_handleSubmit_def isl_def)
  {
    assume v: "truthy_string (assigned_umpire_id g) \<and> rating_check rating' \<and>
          ratings_insert_check db uid uid (id g)"
    then obtain u where u: "assigned_umpire_id g = Some u" by (cases "assigned_umpire_id g") auto
    show ins: "insert_ratings db uid new_id now (id g) uid (assigned_umpire_id g) rating'
              (or_null comment') = Inl unique_violation"
      using v u ex by (auto simp: insert_ratings_def list_ex_iff)
    have nz: "rating' \<noteq> 0" using v by (auto simp: rating_check_def)
    then show "RateUmpireDialog_handleSubmit db (Some uid) g rating' comment' new_id now
              = (toast_error ''You have already rated this umpire for this game'', db)"
      using v ins by (simp add: RateUmpireDialog_handleSubmit_def)
    show "RateUmpireDialog_handleSubmit_edit db (Some uid) g None False rating' comment' new_id now
              = (toast_error ''You have already rated this umpire for this game'', db)"
      using v ins nz by (simp add: RateUmpireDialog_handleSubmit_edit_def)
  }
  have "isl (insert_ratings db uid new_id now (id g) uid (assigned_umpire_id g)
               (if noShow then 0 else rating') (or_null comment'))"
    using ex by (rule insert_ratings_existing_fails)
  then show "snd (RateUmpireDialog_handleSubmit_edit db (Some uid) g None noShow rating' comment'
                    new_id now) = db"
    by (auto simp: RateUmpireDialog_handleSubmit_edit_def isl_def Let_def)
next
  assume "ratings_unique db"
  then show "ratings_unique (snd (RateUmpireDialog_handleSubmit db (Some uid) g rating' comment' new_id now))"
    by (rule handleSubmit_unique)
next
  assume "ratings_unique db" "insert_ratings db actor new_id now gid cid um score cm = Inr db'"
  then show "ratings_unique db'" by (metis insert_ratings_unique)
qed

text \<open>
  C7: a second submit for a pair of game and requester that already has a
  stored Rating should fail as a duplicate and create no second row. On the
  code no second row is created, but the failure is not always the duplicate.
  The coach \<open>c1\<close> has rated the game \<open>g1\<close>; the dialog, opened without
  the existing rating, submits a second time. With five stars the store
  refuses the insert as a duplicate and the handler reports "already rated".
  With the no-show box ticked the dialog sends the rating 0, the check
  constraint \<^verbatim>\<open>CHECK (rating >= 1 AND rating <= 5)\<close> refuses it before the
  unique constraint is read, and the handler reports only that the submit
  failed.
\<close>

theorem C7_no_show_duplicate_not_reported:
  "list_ex (\<lambda>r. rating_game_id r = ''g1'' \<and> rating_coach_id r = ''c1'')
     (ratings example_rated_store) \<and>
   RateUmpireDialog_handleSubmit_edit example_rated_store (Some ''c1'')
      (example_assigned_game\<lparr>status := completed\<rparr>) None False 5 [] ''r2'' 9000000
     = (toast_error ''You have already rated this umpire for this game'', example_rated_store) \<and>
   insert_ratings example_rated_store ''c1'' ''r2'' 9000000 ''g1'' ''c1'' (Some ''u1'') 0 None
     = Inl check_violation \<and>
   RateUmpireDialog_handleSubmit_edit example_rated_store (Some ''c1'')
      (example_assigned_game\<lparr>status := completed\<rparr>) None True 0 [] ''r2'' 9000000
     = (toast_error ''Failed to submit rating'', example_rated_store)"
  by (simp add: example_defs RateUmpireDialog_handleSubmit_edit_def insert_ratings_def
      ratings_insert_check_def rating_check_def or_null_def Let_def)

text \<open>
  The two toasts of the second submit, read off the statement above: the
  duplicate is named for five stars and not for the no-show.
\<close>

theorem C7_no_show_duplicate_not_reported_witness:
  "fst (RateUmpireDialog_handleSubmit_edit example_rated_store (Some ''c1'')
      (example_assigned_game\<lparr>status := completed\<rparr>) None False 5 [] ''r2'' 9000000)
     = toast_error ''You have already rated this umpire for this game'' \<and>
   fst (RateUmpireDialog_handleSubmit_edit example_rated_store (Some ''c1'')
      (example_assigned_game\<lparr>status := completed\<rparr>) None True 0 [] ''r2'' 9000000)
     = toast_error ''Failed to submit rating'' \<and>
   snd (RateUmpireDialog_handleSubmit_edit example_rated_store (Some ''c1'')
      (example_assigned_game\<lparr>status := completed\<rparr>) None True 0 [] ''r2'' 9000000)
     = example_rated_store"
  using C7_no_show_duplicate_not_reported by simp

section \<open>Properties of the bulk import\<close>

lemma string_of_nat_0: "string_of_nat 0 = ''0''"
  by code_simp

lemma string_of_nat_14: "string_of_nat 14 = ''14''"
  by code_simp

lemma string_of_nat_30: "string_of_nat 30 = ''30''"
  by code_simp

lemmas row_defs = row_opponent_def row_location_def row_dateValue_def row_timeValue_def
  row_dateTimeValue_def

lemma no_time_field_default:
  assumes "row ''time'' = None" "row ''Time'' = None" "row ''TIME'' = None"
    "row ''game_time'' = None" "row ''GameTime'' = None"
  shows "row_timeValue row = Str ''18:00''"
  using assms by (simp add: row_timeValue_def)

lemma parseExcelDate_time_nonempty:
  "parseExcelDate rt v = Some (d', t) \<Longrightarrow> t \<noteq> []"
  by (auto simp: parseExcelDate_def Let_def padStart2_def split: if_splits cell.splits option.splits)

lemma row_valid_time:
  assumes o: "truthy_value (row_opponent row)" and l: "truthy_value (row_location row)"
    and dv: "truthy_value (row_dateValue row)"
    and p: "parseExcelDate rt (row_dateValue row) = Some (d', t)"
    and nt: "row_timeValue row = Str ''18:00''"
    and ndt: "\<not> truthy_value (row_dateTimeValue row)"
  shows "parsed_valid (handleFileUpload_row rt row) = (d' \<noteq> []) \<and>
         parsed_date (handleFileUpload_row rt row) = d' \<and>
         parsed_time (handleFileUpload_row rt row) = (if t = ''00:00'' then ''18:00'' else t)"
  using assms parseExcelDate_time_nonempty [OF p]
  by (simp add: handleFileUpload_row_def Let_def)

lemma join_prefix: "prefix x (join sep (x # xs))"
  by (cases xs) auto

lemma row_missing_opponent:
  assumes "\<not> truthy_value (row_opponent row)"
  shows "\<not> parsed_valid (handleFileUpload_row rt row) \<and>
         (case parsed_error (handleFileUpload_row rt row) of
            Some e \<Rightarrow> prefix ''Missing opponent'' e | None \<Rightarrow> False)"
  using assms join_prefix [of "''Missing opponent''" "'', ''"]
  by (simp add: handleFileUpload_row_def Let_def split: prod.splits del: join.simps)

lemma BulkUpload_loop_games:
  "list_all (\<lambda>g. g \<in> set (games (fst st)) \<or>
               list_ex (\<lambda>p. opponent g = parsed_opponent p \<and> location g = parsed_location p) vs)
     (games (fst (BulkUpload_loop rt uid sel ids i vs st)))"
proof (induction vs arbitrary: i st)
  case Nil
  then show ?case by (simp add: list_all_iff)
next
  case (Cons v vs)
  obtain db sc ec where st: "st = (db, sc, ec)" by (cases st) auto
  define st' where "st' = (case new_Date rt (parsed_date v @ ''T'' @ parsed_time v) of
          None \<Rightarrow> (db, sc, ec + 1)
        | Some gameDateTime \<Rightarrow>
            (case insert_games db uid
                    \<lparr>id = fst (ids i), coach_id = sel,
                     game_date = getTime gameDateTime,
                     location = parsed_location v, opponent = parsed_opponent v,
                     status = pending, assigned_umpire_id = None,
                     latitude = None, longitude = None\<rparr> of
               Inl gameError \<Rightarrow> (db, sc, ec + 1)
             | Inr db1 \<Rightarrow>
                 (case insert_umpire_requests db1 uid
                         \<lparr>request_id = snd (ids i), request_game_id = fst (ids i),
                          request_coach_id = sel, request_status = req_pending\<rparr> of
                    Inl requestError \<Rightarrow> (db1, sc, ec + 1)
                  | Inr db2 \<Rightarrow> (db2, sc + 1, ec))))"
  have step: "BulkUpload_loop rt uid sel ids i (v # vs) st = BulkUpload_loop rt uid sel ids (Suc i) vs st'"
    by (simp add: st st'_def)
  have new: "\<forall>g \<in> set (games (fst st')). g \<in> set (games db) \<or>
               (opponent g = parsed_opponent v \<and> location g = parsed_location v)"
    by (auto simp: st'_def insert_games_def insert_umpire_requests_def
          split: option.splits sum.splits if_splits)
  show ?case
    unfolding step using Cons.IH [of st' "Suc i"] new
    by (auto simp: list_all_iff list_ex_iff st)
qed

lemma bulk_only_valid:
  "list_all (\<lambda>g. g \<in> set (games db) \<or>
               list_ex (\<lambda>p. parsed_valid p \<and> opponent g = parsed_opponent p \<and>
                             location g = parsed_location p) parsedGames)
     (games (snd (BulkUpload_handleSubmit rt db uid sel parsedGames ids)))"
proof -
  have "list_all (\<lambda>g. g \<in> set (games db) \<or>
               list_ex (\<lambda>p. opponent g = parsed_opponent p \<and> location g = parsed_location p)
                  (filter parsed_valid parsedGames))
     (games (fst (BulkUpload_loop rt uid sel ids 0 (filter parsed_valid parsedGames) (db, 0, 0))))"
    using BulkUpload_loop_games [of "(db, 0, 0)" "filter parsed_valid parsedGames" rt uid sel ids 0]
    by simp
  then show ?thesis
    by (auto simp: BulkUpload_handleSubmit_def Let_def list_all_iff list_ex_iff split: prod.splits)
qed

subsection \<open>Claim C9\<close>

text \<open>
  C9 as the specification states it fails on its first half. A row with an
  opponent, a location, a parseable date and no time field does not always
  get the time 18:00: where the date cell itself carries a time of day
  (\<^verbatim>\<open>2025-06-01T14:30\<close>) the row gets that time.
\<close>

theorem C9_time_not_defaulted_counterexample:
  "parsed_valid (handleFileUpload_row example_runtime_utc (example_row ''2025-06-01T14:30'')) \<and>
   parsed_time (handleFileUpload_row example_runtime_utc (example_row ''2025-06-01T14:30''))
     = ''14:30''"
  by (simp add: handleFileUpload_row_def row_defs example_row_def example_runtime_utc_def
        parseExcelDate_def padStart2_def string_of_nat_14 string_of_nat_30 Let_def)

text \<open>
  C9, amended: a row carrying an opponent, a location and a parseable date
  but no time field and no combined date-time field is classified as valid,
  and its time is defaulted to 18:00 when the time of day that
  \<open>parseExcelDate\<close> reads from the date cell is 00:00. Where the reading of
  the cell is free of the time zone of the browser, a date cell that carries
  another time of day gives the row that time, and the row carries the date
  that was read. A row missing the opponent is classified as invalid with an
  error text that begins with "Missing opponent"; it stays in the preview
  list and is not among the rows that the submit creates games from: the
  submit reads the valid rows only, and every game it adds has the opponent
  and the location of a valid row.
\<close>

theorem C9_bulk_row_classification:
  "(truthy_value (row_opponent row) \<and> truthy_value (row_location row) \<and>
    truthy_value (row_dateValue row) \<and>
    parseExcelDate rt (row_dateValue row) = Some (d', t) \<and> d' \<noteq> [] \<and>
    row ''time'' = None \<and> row ''Time'' = None \<and> row ''TIME'' = None \<and>
    row ''game_time'' = None \<and> row ''GameTime'' = None \<and>
    \<not> truthy_value (row_dateTimeValue row) \<longrightarrow>
      parsed_valid (handleFileUpload_row rt row) \<and>
      (t = ''00:00'' \<longrightarrow> parsed_time (handleFileUpload_row rt row) = ''18:00'') \<and>
      (zone_free_reading rt (row_dateValue row) \<longrightarrow>
         parsed_date (handleFileUpload_row rt row) = d' \<and>
         parsed_time (handleFileUpload_row rt row) = (if t = ''00:00'' then ''18:00'' else t))) \<and>
   (\<not> truthy_value (row_opponent row) \<longrightarrow>
      \<not> parsed_valid (handleFileUpload_row rt row) \<and>
      (case parsed_error (handleFileUpload_row rt row) of
         Some e \<Rightarrow> prefix ''Missing opponent'' e | None \<Rightarrow> False) \<and>
      (row \<in> set jsonData \<longrightarrow>
         handleFileUpload_row rt row \<in> set (handleFileUpload rt jsonData) \<and>
         handleFileUpload_row rt row \<notin> set (filter parsed_valid (handleFileUpload rt jsonData)))) \<and>
   BulkUpload_handleSubmit rt db uid sel parsedGames ids
     = BulkUpload_handleSubmit rt db uid sel (filter parsed_valid parsedGames) ids \<and>
   list_all (\<lambda>g. g \<in> set (games db) \<or>
               list_ex (\<lambda>p. parsed_valid p \<and> opponent g = parsed_opponent p \<and>
                             location g = parsed_location p) parsedGames)
     (games (snd (BulkUpload_handleSubmit rt db uid sel parsedGames ids)))"
proof (intro conjI impI)
  assume a: "truthy_value (row_opponent row) \<and> truthy_value (row_location row) \<and>
    truthy_value (row_dateValue row) \<and>
    parseExcelDate rt (row_dateValue row) = Some (d', t) \<and> d' \<noteq> [] \<and>
    row ''time'' = None \<and> row ''Time'' = None \<and> row ''TIME'' = None \<and>
    row ''game_time'' = None \<and> row ''GameTime'' = None \<and>
    \<not> truthy_value (row_dateTimeValue row)"
  then have tv: "row_timeValue row = Str ''18:00''" by (intro no_time_field_default) auto
  have r: "parsed_valid (handleFileUpload_row rt row) = (d' \<noteq> []) \<and>
         parsed_date (handleFileUpload_row rt row) = d' \<and>
         parsed_time (handleFileUpload_row rt row) = (if t = ''00:00'' then ''18:00'' else t)"
    using a tv by (intro row_valid_time) auto
  show "parsed_valid (handleFileUpload_row rt row)" using r a by simp
  show "parsed_time (handleFileUpload_row rt row) = ''18:00''" if "t = ''00:00''"
    using r that by simp
  show "parsed_date (handleFileUpload_row rt row) = d'" using r by simp
  show "parsed_time (handleFileUpload_row rt row) = (if t = ''00:00'' then ''18:00'' else t)"
    using r by simp
next
  assume n: "\<not> truthy_value (row_opponent row)"
  show "\<not> parsed_valid (handleFileUpload_row rt row)"
    using row_missing_opponent [OF n] by simp
  show "case parsed_error (handleFileUpload_row rt row) of
         Some e \<Rightarrow> prefix ''Missing opponent'' e | None \<Rightarrow> False"
    using row_missing_opponent [OF n] by simp
  {
    assume "row \<in> set jsonData"
    then show "handleFileUpload_row rt row \<in> set (handleFileUpload rt jsonData)"
      by (simp add: handleFileUpload_def)
    show "handleFileUpload_row rt row \<notin> set (filter parsed_valid (handleFileUpload rt jsonData))"
      using row_missing_opponent [OF n] by simp
  }
next
  show "BulkUpload_handleSubmit rt db uid sel parsedGames ids
     = BulkUpload_handleSubmit rt db uid sel (filter parsed_valid parsedGames) ids"
    by (simp add: BulkUpload_handleSubmit_def)
  show "list_all (\<lambda>g. g \<in> set (games db) \<or>
               list_ex (\<lambda>p. parsed_valid p \<and> opponent g = parsed_opponent p \<and>
                             location g = parsed_location p) parsedGames)
     (games (snd (BulkUpload_handleSubmit rt db uid sel parsedGames ids)))"
    by (rule bulk_only_valid)
qed

text \<open>
  The amended C9 in a browser whose time zone is UTC: on the example of the
  specification, on the same row with a time of day in its date cell, and on
  the same row without its opponent.
\<close>

theorem C9_bulk_row_classification_witness:
  "parseExcelDate example_runtime_utc (row_dateValue (example_row ''2025-06-01''))
     = Some (''2025-06-01'', ''00:00'') \<and>
   parsed_valid (handleFileUpload_row example_runtime_utc (example_row ''2025-06-01'')) \<and>
   parsed_time (handleFileUpload_row example_runtime_utc (example_row ''2025-06-01'')) = ''18:00'' \<and>
   parseExcelDate example_runtime_utc (row_dateValue (example_row ''2025-06-01T14:30''))
     = Some (''2025-06-01'', ''14:30'') \<and>
   zone_free_reading example_runtime_utc (row_dateValue (example_row ''2025-06-01T14:30'')) \<and>
   parsed_date (handleFileUpload_row example_runtime_utc (example_row ''2025-06-01T14:30''))
     = ''2025-06-01'' \<and>
   parsed_time (handleFileUpload_row example_runtime_utc (example_row ''2025-06-01T14:30''))
     = ''14:30'' \<and>
   \<not> truthy_value (row_opponent ((example_row ''2025-06-01'')(''opponent'' := None))) \<and>
   \<not> parsed_valid (handleFileUpload_row example_runtime_utc
         ((example_row ''2025-06-01'')(''opponent'' := None))) \<and>
   handleFileUpload_row example_runtime_utc ((example_row ''2025-06-01'')(''opponent'' := None))
     \<in> set (handleFileUpload example_runtime_utc
          [example_row ''2025-06-01'', (example_row ''2025-06-01'')(''opponent'' := None)])"
proof -
  have a: "truthy_value (row_opponent (example_row s))"
    "truthy_value (row_location (example_row s))"
    "example_row s ''time'' = None" "example_row s ''Time'' = None"
    "example_row s ''TIME'' = None" "example_row s ''game_time'' = None"
    "example_row s ''GameTime'' = None"
    "\<not> truthy_value (row_dateTimeValue (example_row s))" for s
    by (simp_all add: row_defs example_row_def)
  have d: "truthy_value (row_dateValue (example_row ''2025-06-01''))"
    "parseExcelDate example_runtime_utc (row_dateValue (example_row ''2025-06-01''))
       = Some (''2025-06-01'', ''00:00'')"
    "truthy_value (row_dateValue (example_row ''2025-06-01T14:30''))"
    "parseExcelDate example_runtime_utc (row_dateValue (example_row ''2025-06-01T14:30''))
       = Some (''2025-06-01'', ''14:30'')"
    "zone_free_reading example_runtime_utc (row_dateValue (example_row ''2025-06-01T14:30''))"
    by (simp_all add: row_defs example_row_def example_runtime_utc_def parseExcelDate_def
          zone_free_reading_def padStart2_def string_of_nat_0 string_of_nat_14 string_of_nat_30
          Let_def)
  have b: "\<not> truthy_value (row_opponent ((example_row ''2025-06-01'')(''opponent'' := None)))"
    "(example_row ''2025-06-01'')(''opponent'' := None)
       \<in> set [example_row ''2025-06-01'', (example_row ''2025-06-01'')(''opponent'' := None)]"
    by (simp_all add: row_defs example_row_def)
  show ?thesis
    using C9_bulk_row_classification [where row = "example_row ''2025-06-01''"
        and rt = example_runtime_utc and d' = "''2025-06-01''" and t = "''00:00''"]
      C9_bulk_row_classification [where row = "example_row ''2025-06-01T14:30''"
        and rt = example_runtime_utc and d' = "''2025-06-01''" and t = "''14:30''"]
      C9_bulk_row_classification [where row = "(example_row ''2025-06-01'')(''opponent'' := None)"
        and rt = example_runtime_utc
        and jsonData = "[example_row ''2025-06-01'', (example_row ''2025-06-01'')(''opponent'' := None)]"]
      a d b
    by simp
qed

end
